theory Spec2Isabelle
  imports Main "HOL-Library.AList" "HOL-Library.Char_ord" "HOL-Library.List_Lexorder"
begin

section \<open>Optimizer-state checkpoints of nanotron: a model of serialize/optimizer.py\<close>

text \<open>
  The model follows \<^verbatim>\<open>src/nanotron/serialize/optimizer.py\<close> and
  \<^verbatim>\<open>src/nanotron/optim/inherit_from_other_optimizer.py\<close>. Python exceptions are values
  of \<open>error\<close>; dictionaries whose iteration order the code depends on are association
  lists in insertion order; ranks, sizes and offsets are natural numbers.
\<close>

datatype error =
    AssertionError | KeyError | IndexError | TypeError | NameError
  | RuntimeError | NotImplementedError | FileNotFoundError | JSONDecodeError
  | ZeroDivisionError | StopIteration

subsection \<open>Python's str on a non-negative int, and f-string file names\<close>

definition digit_char :: "nat \<Rightarrow> char" where
  "digit_char d = ''0123456789'' ! d"

text \<open>The digit a character of such a string stands for.\<close>

definition digit_value :: "char \<Rightarrow> nat" where
  "digit_value c = length (takeWhile (\<lambda>d. d \<noteq> c) ''0123456789'')"

function str_nat :: "nat \<Rightarrow> string" where
  "str_nat n = (if n < 10 then [digit_char n] else str_nat (n div 10) @ [digit_char (n mod 10)])"
  by pat_completeness auto
termination
  by (relation "measure id") auto

declare str_nat.simps [simp del]

text \<open>
  Modelled from the spec: the enum \<^verbatim>\<open>ObjectType\<close> of nanotron.serialize.utils and the
  constant \<^verbatim>\<open>OPTIMIZER_CONFIG_FILE_NAME\<close> of nanotron.constants are not under src/; section 6
  of the spec names the files \<^verbatim>\<open>optimizer/optimizer_config.json\<close> and
  \<^verbatim>\<open>optimizer/optimizer_pp-...\<close>.
\<close>

definition ObjectType_OPTIMIZER :: string where
  "ObjectType_OPTIMIZER = ''optimizer''"

definition OPTIMIZER_CONFIG_FILE_NAME :: string where
  "OPTIMIZER_CONFIG_FILE_NAME = ''optimizer_config.json''"

text \<open>
  \<^verbatim>\<open>get_optimizer_filename\<close> (lines 30-54). A topology is the pair (rank, size); the
  keyword arguments that default to None are options. Unpacking None as a pair is a
  TypeError.
\<close>

definition get_optimizer_filename ::
  "nat \<times> nat \<Rightarrow> nat \<times> nat \<Rightarrow> (nat \<times> nat) option \<Rightarrow> (nat \<times> nat) option \<Rightarrow> bool option
    \<Rightarrow> error + string" where
  "get_optimizer_filename tp_topology pp_topology dp_topology exp_topology is_zero =
    (case exp_topology of
       None \<Rightarrow> Inl AssertionError
     | Some (exp_rank, exp_size) \<Rightarrow>
        (case is_zero of
           None \<Rightarrow> Inl AssertionError
         | Some z \<Rightarrow>
            (case pp_topology of (pp_rank, pp_size) \<Rightarrow>
             case tp_topology of (tp_rank, tp_size) \<Rightarrow>
               if z then
                 (case dp_topology of
                    None \<Rightarrow> Inl TypeError
                  | Some (dp_rank, dp_size) \<Rightarrow>
                      Inr (ObjectType_OPTIMIZER @ ''_pp-'' @ str_nat pp_rank @ ''-of-'' @ str_nat pp_size
                           @ ''_dp-'' @ str_nat dp_rank @ ''-of-'' @ str_nat dp_size
                           @ ''_tp-'' @ str_nat tp_rank @ ''-of-'' @ str_nat tp_size
                           @ ''_exp-'' @ str_nat exp_rank @ ''-of-'' @ str_nat exp_size @ ''.pt''))
               else
                 Inr (ObjectType_OPTIMIZER @ ''_pp-'' @ str_nat pp_rank @ ''-of-'' @ str_nat pp_size
                      @ ''_tp-'' @ str_nat tp_rank @ ''-of-'' @ str_nat tp_size
                      @ ''_exp-'' @ str_nat exp_rank @ ''-of-'' @ str_nat exp_size @ ''.pt''))))"

subsection \<open>Globbing a directory\<close>

text \<open>
  \<^verbatim>\<open>Path.glob\<close> matches each entry name of the directory against the pattern as fnmatch
  does. The patterns of this module hold literal text, decimal digits and \<^verbatim>\<open>*\<close> only, so
  \<^verbatim>\<open>*\<close> (any run of characters, also the empty one) is the only wildcard modelled.
\<close>

fun fnmatch_from :: "string \<Rightarrow> string \<Rightarrow> bool" where
  "fnmatch_from [] name = (name = [])"
| "fnmatch_from (p # ps) name =
     (if p = CHR ''*'' then
        (fnmatch_from ps name \<or> (case name of [] \<Rightarrow> False | c # cs \<Rightarrow> fnmatch_from (p # ps) cs))
      else (case name of [] \<Rightarrow> False | c # cs \<Rightarrow> c = p \<and> fnmatch_from ps cs))"

definition fnmatch :: "string \<Rightarrow> string \<Rightarrow> bool" where
  "fnmatch name pat = fnmatch_from pat name"

definition glob :: "string list \<Rightarrow> string \<Rightarrow> string list" where
  "glob entries pat = filter (\<lambda>name. fnmatch name pat) entries"

text \<open>
  The two patterns \<^verbatim>\<open>load_optimizer\<close> builds from the sizes of the manifest: the one for
  a checkpoint of a ZeRO-1 optimizer (lines 224 and 429) and the one for any other
  checkpoint (line 235).
\<close>

definition zero1_shard_pattern :: "nat \<Rightarrow> nat \<Rightarrow> nat \<Rightarrow> nat \<Rightarrow> string" where
  "zero1_shard_pattern ckp_pp_size ckp_dp_size ckp_tp_size ckpt_expert_parallel_size =
     ObjectType_OPTIMIZER @ ''_pp-*-of-'' @ str_nat ckp_pp_size @ ''_dp-*-of-'' @ str_nat ckp_dp_size
       @ ''_tp-*-of-'' @ str_nat ckp_tp_size @ ''_exp-*-of-'' @ str_nat ckpt_expert_parallel_size @ ''.pt''"

definition zero0_shard_pattern :: "nat \<Rightarrow> nat \<Rightarrow> string" where
  "zero0_shard_pattern ckp_pp_size ckp_tp_size =
     ObjectType_OPTIMIZER @ ''_pp-*-of-'' @ str_nat ckp_pp_size @ ''_tp-*-of-'' @ str_nat ckp_tp_size @ ''.pt''"

subsection \<open>Optimizer wrappers\<close>

text \<open>
  An \<^verbatim>\<open>InheritFromOtherOptimizer\<close> wraps another optimizer in its field \<^verbatim>\<open>optimizer\<close>;
  the wrapped object is again such a wrapper (\<open>Inr\<close>) or any other optimizer (\<open>Inl\<close>).
  \<open>mro\<close> lists the classes the object is an instance of. The two attributes are the ones
  \<^verbatim>\<open>save_optimizer\<close> and \<^verbatim>\<open>load_optimizer\<close> read from a ZeroDistributedOptimizer.
\<close>

type_synonym cls = string

type_synonym offsets_table = "(string \<times> (nat \<times> (nat \<times> nat)) list) list"

type_synonym param_shapes = "(string \<times> nat list) list"

record 's base_optimizer =
  base_mro :: "cls list"
  base_state :: 's

datatype 's wrapper =
  InheritFromOtherOptimizer
    (mro: "cls list")
    (param_name_to_dp_rank_offsets: "offsets_table option")
    (orig_param_shapes: param_shapes)
    (wrapped_optimizer: "'s base_optimizer + 's wrapper")

definition ZeroDistributedOptimizer :: cls where
  "ZeroDistributedOptimizer = ''ZeroDistributedOptimizer''"

definition isinstance :: "'s wrapper \<Rightarrow> cls \<Rightarrow> bool" where
  "isinstance self c = (c \<in> set (mro self))"

fun inherit_from :: "'s wrapper \<Rightarrow> cls \<Rightarrow> bool" where
  "inherit_from (InheritFromOtherOptimizer cs offs shapes inner) c =
     (if c \<in> set cs then True
      else (case inner of
              Inr w \<Rightarrow> inherit_from w c
            | Inl b \<Rightarrow> False))"



subsection \<open>Tensors, state dicts and the files of a checkpoint\<close>

text \<open>
  A tensor is its device and its elements in flat (row-major) order; the elements are
  opaque values of a type with a zero. \<^verbatim>\<open>tensor.to(device)\<close> keeps the elements, and
  \<^verbatim>\<open>to(None)\<close> keeps the device too.
\<close>

datatype device = CPU | CUDA nat | OtherDevice string

record 'a tensor =
  device :: device
  data :: "'a list"

definition to :: "device \<Rightarrow> 'a tensor \<Rightarrow> 'a tensor" where
  "to dev t = t\<lparr>device := dev\<rparr>"

definition to_location :: "device option \<Rightarrow> 'a tensor \<Rightarrow> 'a tensor" where
  "to_location map_location t = (case map_location of None \<Rightarrow> t | Some dev \<Rightarrow> to dev t)"

definition numel :: "'a tensor \<Rightarrow> nat" where
  "numel t = length (data t)"

text \<open>
  The mapping a shard file holds and \<^verbatim>\<open>optimizer.state_dict()\<close> returns:
  \<^verbatim>\<open>{"state": {index: {name: tensor}}, "names": {index: name}, "gradient_accumulator": {name: tensor}}\<close>.
  The last two keys are present for some optimizers only.
\<close>

record 'a state_dict =
  state :: "(nat \<times> (string \<times> 'a tensor) list) list"
  names :: "(nat \<times> string) list option"
  gradient_accumulator :: "(string \<times> 'a tensor) list option"

text \<open>
  The manifest \<^verbatim>\<open>optimizer_config.json\<close> (lines 89-122). The file holds every number as
  the string \<^verbatim>\<open>str(n)\<close>, and the reader applies \<^verbatim>\<open>int\<close> to it or formats it into a
  pattern; the model keeps the number and writes \<open>str_nat\<close> where the string is used.
\<close>

record config =
  optimizer_type :: string
  tp_size :: nat
  dp_size :: nat
  pp_size :: nat
  expert_parallel_size :: nat
  configs_param_name_to_dp_rank_offsets :: "offsets_table option"
  configs_orig_param_shapes :: "param_shapes option"

datatype 'a file_content = EmptyFile | ConfigFile config | ShardFile "'a state_dict"

type_synonym path = "string list"

record 'a filesystem =
  dirs :: "path set"
  files :: "(path \<times> 'a file_content) list"

datatype 'a fs_op = Mkdir path | Open path | Write path "'a file_content"

text \<open>
  \<^verbatim>\<open>mkdir(exist_ok=True, parents=True)\<close> creates the directory and its missing parents;
  \<^verbatim>\<open>open(path, "w")\<close> creates or truncates the file. The file system is taken to be
  reliable (section 5 of the spec): a write succeeds.
\<close>

fun path_prefixes :: "path \<Rightarrow> path list" where
  "path_prefixes [] = []"
| "path_prefixes (x # xs) = [x] # map ((#) x) (path_prefixes xs)"

fun apply_op :: "'a filesystem \<Rightarrow> 'a fs_op \<Rightarrow> 'a filesystem" where
  "apply_op fs (Mkdir p) = fs\<lparr>dirs := dirs fs \<union> set (path_prefixes p)\<rparr>"
| "apply_op fs (Open p) = fs\<lparr>files := AList.update p EmptyFile (files fs)\<rparr>"
| "apply_op fs (Write p f) = fs\<lparr>files := AList.update p f (files fs)\<rparr>"

definition apply_ops :: "'a filesystem \<Rightarrow> 'a fs_op list \<Rightarrow> 'a filesystem" where
  "apply_ops fs ops = foldl apply_op fs ops"

definition listdir :: "'a filesystem \<Rightarrow> path \<Rightarrow> string list" where
  "listdir fs dir = map (\<lambda>(p, f). last p) (filter (\<lambda>(p, f). p \<noteq> [] \<and> butlast p = dir) (files fs))"

text \<open>The ranks and sizes \<^verbatim>\<open>parallel_context\<close> gives for the calling process.\<close>

record parallel_context =
  tp_pg_rank :: nat
  tp_pg_size :: nat
  pp_pg_rank :: nat
  pp_pg_size :: nat
  dp_pg_rank :: nat
  dp_pg_size :: nat
  expert_pg_rank :: nat
  expert_pg_size :: nat
  world_pg_rank :: nat

subsection \<open>save_optimizer (lines 64-135)\<close>

text \<open>
  \<^verbatim>\<open>state_dict\<close> and \<^verbatim>\<open>load_state_dict\<close> of a wrapper pass the call on to the wrapped
  optimizer (lines 46-50 of inherit_from_other_optimizer.py); the innermost optimizer
  holds the state.
\<close>

fun state_dict_of :: "'s wrapper \<Rightarrow> 's" where
  "state_dict_of (InheritFromOtherOptimizer cs offs shapes inner) =
     (case inner of Inr w \<Rightarrow> state_dict_of w | Inl b \<Rightarrow> base_state b)"

fun load_state_dict :: "'s wrapper \<Rightarrow> 's \<Rightarrow> 's wrapper" where
  "load_state_dict (InheritFromOtherOptimizer cs offs shapes inner) sd =
     InheritFromOtherOptimizer cs offs shapes
       (case inner of Inr w \<Rightarrow> Inr (load_state_dict w sd) | Inl b \<Rightarrow> Inl (b\<lparr>base_state := sd\<rparr>))"

definition class_name :: "'s wrapper \<Rightarrow> string" where
  "class_name self = (case mro self of [] \<Rightarrow> [] | c # cs \<Rightarrow> c)"

text \<open>The manifest of lines 89-120; the assertion of line 114 fails on a table that is None.\<close>

definition optimizer_config :: "'s wrapper \<Rightarrow> parallel_context \<Rightarrow> error + config" where
  "optimizer_config optimizer pc =
     (let config = \<lparr>optimizer_type = class_name optimizer,
                     tp_size = tp_pg_size pc, dp_size = dp_pg_size pc, pp_size = pp_pg_size pc,
                     expert_parallel_size = expert_pg_size pc,
                     configs_param_name_to_dp_rank_offsets = None,
                     configs_orig_param_shapes = None\<rparr>
      in if isinstance optimizer ZeroDistributedOptimizer then
           (case param_name_to_dp_rank_offsets optimizer of
              None \<Rightarrow> Inl AssertionError
            | Some table \<Rightarrow>
                Inr (config\<lparr>configs_param_name_to_dp_rank_offsets := Some table,
                            configs_orig_param_shapes := Some (orig_param_shapes optimizer)\<rparr>))
         else Inr config)"

text \<open>The file name of lines 128-134.\<close>

definition save_filename :: "'s wrapper \<Rightarrow> parallel_context \<Rightarrow> error + string" where
  "save_filename optimizer pc =
     get_optimizer_filename (tp_pg_rank pc, tp_pg_size pc) (pp_pg_rank pc, pp_pg_size pc)
       (Some (dp_pg_rank pc, dp_pg_size pc)) (Some (expert_pg_rank pc, expert_pg_size pc))
       (Some (inherit_from optimizer ZeroDistributedOptimizer))"

text \<open>
  \<^verbatim>\<open>save_optimizer\<close> as the list of its file-system operations, in order, and the
  exception that ended it, if any.
\<close>

definition save_optimizer_ops ::
  "'a state_dict wrapper \<Rightarrow> parallel_context \<Rightarrow> path \<Rightarrow> 'a fs_op list \<times> error option" where
  "save_optimizer_ops optimizer pc root_folder =
     (if \<not> inherit_from optimizer ZeroDistributedOptimizer \<and> dp_pg_rank pc > 0 then ([], None)
      else
        let root = root_folder @ [''optimizer''];
            ops1 = [Mkdir root];
            manifest =
              (if world_pg_rank pc = 0 then
                 (case optimizer_config optimizer pc of
                    Inl e \<Rightarrow> ([Open (root @ [OPTIMIZER_CONFIG_FILE_NAME])], Some e)
                  | Inr config \<Rightarrow>
                      ([Open (root @ [OPTIMIZER_CONFIG_FILE_NAME]),
                        Write (root @ [OPTIMIZER_CONFIG_FILE_NAME]) (ConfigFile config)], None))
               else ([], None))
        in (case manifest of
              (ops2, Some e) \<Rightarrow> (ops1 @ ops2, Some e)
            | (ops2, None) \<Rightarrow>
                (case save_filename optimizer pc of
                   Inl e \<Rightarrow> (ops1 @ ops2, Some e)
                 | Inr name \<Rightarrow>
                     (ops1 @ ops2 @ [Write (root @ [name]) (ShardFile (state_dict_of optimizer))], None))))"

definition save_optimizer ::
  "'a state_dict wrapper \<Rightarrow> parallel_context \<Rightarrow> path \<Rightarrow> 'a filesystem \<Rightarrow> 'a filesystem \<times> error option" where
  "save_optimizer optimizer pc root_folder fs =
     (case save_optimizer_ops optimizer pc root_folder of (ops, e) \<Rightarrow> (apply_ops fs ops, e))"

subsection \<open>Raising and looking up\<close>

definition and_then :: "error + 'a \<Rightarrow> ('a \<Rightarrow> error + 'b) \<Rightarrow> error + 'b" where
  "and_then m f = (case m of Inl e \<Rightarrow> Inl e | Inr x \<Rightarrow> f x)"

definition lookup :: "('k \<times> 'v) list \<Rightarrow> 'k \<Rightarrow> error + 'v" where
  "lookup d k = (case map_of d k of None \<Rightarrow> Inl KeyError | Some v \<Rightarrow> Inr v)"

definition present :: "'v option \<Rightarrow> error + 'v" where
  "present v = (case v of None \<Rightarrow> Inl KeyError | Some x \<Rightarrow> Inr x)"

text \<open>A loop whose body may raise: the first exception ends it.\<close>

primrec for_each :: "('s \<Rightarrow> 'x \<Rightarrow> error + 's) \<Rightarrow> 'x list \<Rightarrow> 's \<Rightarrow> error + 's" where
  "for_each body [] s = Inr s"
| "for_each body (x # xs) s = and_then (body s x) (for_each body xs)"

text \<open>
  A loop that updates a dictionary the caller still holds when the body raises: the
  result is the dictionary as the exception left it, and the exception.
\<close>

primrec for_each_mut :: "('s \<Rightarrow> 'x \<Rightarrow> 's \<times> error option) \<Rightarrow> 'x list \<Rightarrow> 's \<Rightarrow> 's \<times> error option" where
  "for_each_mut body [] s = (s, None)"
| "for_each_mut body (x # xs) s =
     (case body s x of
        (s', Some e) \<Rightarrow> (s', Some e)
      | (s', None) \<Rightarrow> for_each_mut body xs s')"

subsection \<open>state_dict_to_device (lines 160-177)\<close>

definition device_type :: "device \<Rightarrow> string" where
  "device_type d = (case d of CPU \<Rightarrow> ''cpu'' | CUDA i \<Rightarrow> ''cuda'' | OtherDevice ty \<Rightarrow> ty)"

definition map_state_tensors ::
  "('a tensor \<Rightarrow> 'a tensor) \<Rightarrow> (nat \<times> (string \<times> 'a tensor) list) list \<Rightarrow> (nat \<times> (string \<times> 'a tensor) list) list" where
  "map_state_tensors f st = map (\<lambda>(i, optim_state). (i, map (\<lambda>(name, t). (name, f t)) optim_state)) st"

definition exp_avg_device_type :: "'a state_dict \<Rightarrow> error + string" where
  "exp_avg_device_type sd =
     and_then (lookup (state sd) 0) (\<lambda>optim_state.
     and_then (lookup optim_state ''exp_avg'') (\<lambda>t. Inr (device_type (device t))))"

text \<open>
  The function updates the dictionary it is given, so the result is that dictionary as
  the call leaves it, with the exception raised, if any.
\<close>

definition state_dict_to_device :: "'a state_dict \<Rightarrow> device \<Rightarrow> 'a state_dict \<times> error option" where
  "state_dict_to_device sd dev =
     (case exp_avg_device_type sd of
        Inl e \<Rightarrow> (sd, Some e)
      | Inr ty \<Rightarrow>
          if ty \<noteq> ''cpu'' then (sd, Some AssertionError)
          else
            let sd1 = sd\<lparr>state := map_state_tensors (to dev) (state sd)\<rparr> in
            (case gradient_accumulator sd1 of
               None \<Rightarrow> (sd1, Some KeyError)
             | Some acc \<Rightarrow>
                 let sd2 = sd1\<lparr>gradient_accumulator := Some (map (\<lambda>(name, t). (name, to dev t)) acc)\<rparr> in
                 (case exp_avg_device_type sd2 of
                    Inl e \<Rightarrow> (sd2, Some e)
                  | Inr ty2 \<Rightarrow> if ty2 \<noteq> ''cuda'' then (sd2, Some AssertionError) else (sd2, None))))"

definition state_tensors :: "'a state_dict \<Rightarrow> 'a tensor list" where
  "state_tensors sd = concat (map (\<lambda>(i, optim_state). map snd optim_state) (state sd))"

definition accumulator_tensors :: "'a state_dict \<Rightarrow> 'a tensor list" where
  "accumulator_tensors sd = (case gradient_accumulator sd of None \<Rightarrow> [] | Some acc \<Rightarrow> map snd acc)"

definition all_on_device :: "'a state_dict \<Rightarrow> device \<Rightarrow> bool" where
  "all_on_device sd dev = list_all (\<lambda>t. device t = dev) (state_tensors sd @ accumulator_tensors sd)"

subsection \<open>Reading a checkpoint\<close>

definition read_config :: "'a filesystem \<Rightarrow> path \<Rightarrow> error + config" where
  "read_config fs p =
     (case map_of (files fs) p of
        None \<Rightarrow> Inl FileNotFoundError
      | Some (ConfigFile c) \<Rightarrow> Inr c
      | Some other \<Rightarrow> Inl JSONDecodeError)"

definition state_dict_to_location :: "device option \<Rightarrow> 'a state_dict \<Rightarrow> 'a state_dict" where
  "state_dict_to_location map_location sd =
     sd\<lparr>state := map_state_tensors (to_location map_location) (state sd),
        gradient_accumulator :=
          map_option (map (\<lambda>(name, t). (name, to_location map_location t))) (gradient_accumulator sd)\<rparr>"

text \<open>\<^verbatim>\<open>torch.load(path, map_location=...)\<close>: what \<^verbatim>\<open>torch.save\<close> wrote there, moved.\<close>

definition torch_load :: "'a filesystem \<Rightarrow> path \<Rightarrow> device option \<Rightarrow> error + 'a state_dict" where
  "torch_load fs p map_location =
     (case map_of (files fs) p of
        None \<Rightarrow> Inl FileNotFoundError
      | Some (ShardFile sd) \<Rightarrow> Inr (state_dict_to_location map_location sd)
      | Some other \<Rightarrow> Inl RuntimeError)"

text \<open>
  The branch of lines 365-384, taken when the tensor-parallel and pipeline-parallel sizes
  are those of the checkpoint: one file is read, named by the ranks of the process. Its
  data-parallel coordinate is the pipeline-parallel rank divided by the data-parallel
  size of the checkpoint (line 379).
\<close>

definition direct_load ::
  "'a state_dict wrapper \<Rightarrow> parallel_context \<Rightarrow> path \<Rightarrow> device option \<Rightarrow> config \<Rightarrow> 'a filesystem
    \<Rightarrow> error + 'a state_dict" where
  "direct_load optimizer pc root map_location ckp_optimizer_config fs =
     (if dp_size ckp_optimizer_config = 0 then Inl ZeroDivisionError
      else
        and_then
          (get_optimizer_filename (tp_pg_rank pc, tp_pg_size pc) (pp_pg_rank pc, pp_pg_size pc)
             (Some (pp_pg_rank pc div dp_size ckp_optimizer_config, dp_size ckp_optimizer_config))
             (Some (expert_pg_rank pc, expert_pg_size pc))
             (Some (inherit_from optimizer ZeroDistributedOptimizer)))
          (\<lambda>name. torch_load fs (root @ [name]) map_location))"

subsection \<open>Resharding a ZeRO-1 checkpoint to another data-parallel size (lines 386-485)\<close>

text \<open>
  Python's \<^verbatim>\<open>xs[start:stop]\<close> and \<^verbatim>\<open>xs[start:stop] = src\<close> on a one-dimensional tensor,
  for offsets that are not negative: the slice is clipped to the length; the source has
  the length of the slice, or one element that is broadcast; anything else is a
  RuntimeError.
\<close>

definition py_slice :: "'a list \<Rightarrow> nat \<Rightarrow> nat \<Rightarrow> 'a list" where
  "py_slice xs start stop = drop start (take stop xs)"

definition slice_assign :: "'a list \<Rightarrow> nat \<Rightarrow> nat \<Rightarrow> 'a list \<Rightarrow> error + 'a list" where
  "slice_assign dst start stop src =
     (let n = length (py_slice dst start stop) in
      if length src = n then Inr (take start dst @ src @ drop (start + n) dst)
      else if length src = 1 then Inr (take start dst @ replicate n (hd src) @ drop (start + n) dst)
      else Inl RuntimeError)"

definition tensor_slice :: "'a tensor \<Rightarrow> nat \<Rightarrow> nat \<Rightarrow> 'a tensor" where
  "tensor_slice t start stop = t\<lparr>data := py_slice (data t) start stop\<rparr>"

definition tensor_slice_assign :: "'a tensor \<Rightarrow> nat \<Rightarrow> nat \<Rightarrow> 'a tensor \<Rightarrow> error + 'a tensor" where
  "tensor_slice_assign dst start stop src =
     and_then (slice_assign (data dst) start stop (data src)) (\<lambda>xs. Inr (dst\<lparr>data := xs\<rparr>))"

text \<open>
  Modelled from the spec: \<^verbatim>\<open>get_sliced_tensor\<close> of nanotron.optim.zero is not under src/;
  section 4.5 step 3 has it keep the elements of the flat buffer in the offset range.
\<close>

definition get_sliced_tensor :: "'a tensor \<Rightarrow> nat \<Rightarrow> nat \<Rightarrow> 'a tensor" where
  "get_sliced_tensor param start_offset end_offset = tensor_slice param start_offset end_offset"

definition zeros :: "nat list \<Rightarrow> device option \<Rightarrow> ('a::zero) tensor" where
  "zeros p_shape map_location =
     to_location map_location \<lparr>device = CPU, data = replicate (prod_list p_shape) 0\<rparr>"

definition create_merged_optim_states ::
  "param_shapes \<Rightarrow> device option \<Rightarrow> (string \<times> (string \<times> ('a::zero) tensor) list) list" where
  "create_merged_optim_states shapes map_location =
     map (\<lambda>(name, p_shape).
            (name, [(''exp_avg'', zeros p_shape map_location), (''exp_avg_sq'', zeros p_shape map_location)]))
         shapes"

definition create_merged_gradients ::
  "param_shapes \<Rightarrow> device option \<Rightarrow> (string \<times> ('a::zero) tensor) list" where
  "create_merged_gradients shapes map_location =
     map (\<lambda>(name, p_shape). (name, zeros p_shape map_location)) shapes"

text \<open>
  \<^verbatim>\<open>load_sharded_states\<close> (lines 403-409). \<^verbatim>\<open>extract_parallel_ranks_from_shard_path\<close> of
  nanotron.optim.zero is not under src/: it is the parameter \<open>extract\<close>, which gives
  (pp_rank, dp_rank, tp_rank) for a file name. \<open>load_type\<close> selects the entry of the
  checkpoint, None when the key is absent.
\<close>

definition load_sharded_states ::
  "(string \<Rightarrow> nat \<times> nat \<times> nat) \<Rightarrow> 'a filesystem \<Rightarrow> path \<Rightarrow> string list \<Rightarrow> device option
    \<Rightarrow> ('a state_dict \<Rightarrow> 'v option) \<Rightarrow> error + ((nat \<times> nat) \<times> 'v) list" where
  "load_sharded_states extract fs root shard_paths map_location load_type =
     for_each
       (\<lambda>sharded_states shard_path.
          case extract shard_path of (pp, dp, tp) \<Rightarrow>
            and_then (torch_load fs (root @ [shard_path]) map_location) (\<lambda>checkpoint.
            and_then (present (load_type checkpoint)) (\<lambda>v.
              Inr (AList.update (tp, dp) v sharded_states))))
       shard_paths []"

definition get_key_by_value :: "('k \<times> 'v) list \<Rightarrow> 'v \<Rightarrow> 'k option" where
  "get_key_by_value d target_value =
     (case filter (\<lambda>(key, v). v = target_value) d of [] \<Rightarrow> None | (key, v) # rest \<Rightarrow> Some key)"

text \<open>
  \<^verbatim>\<open>apply_offsets\<close> with state keys (lines 415-420): the right-hand side is read first,
  then the slice of the merged tensor is overwritten. Without state keys, called on the
  merged optimizer states, the else branch looks the parameter name up in a dictionary
  keyed by parameter index, a KeyError.
\<close>

definition apply_offsets_states ::
  "'a state_dict \<Rightarrow> (string \<times> (string \<times> 'a tensor) list) list
    \<Rightarrow> ((nat \<times> nat) \<times> (nat \<times> (string \<times> 'a tensor) list) list) list
    \<Rightarrow> string \<Rightarrow> nat \<times> nat \<Rightarrow> nat \<Rightarrow> nat \<Rightarrow> string list
    \<Rightarrow> error + (string \<times> (string \<times> 'a tensor) list) list" where
  "apply_offsets_states sd merged_tensor sharded_states param_name offsets tp dp state_keys =
     (if state_keys = [] then Inl KeyError
      else
        for_each
          (\<lambda>merged key.
             and_then (present (names sd)) (\<lambda>nms.
             and_then (lookup sharded_states (tp, dp)) (\<lambda>shard.
             and_then (present (get_key_by_value nms param_name)) (\<lambda>p_idx.
             and_then (lookup shard p_idx) (\<lambda>optim_state.
             and_then (lookup optim_state key) (\<lambda>src.
             and_then (lookup merged param_name) (\<lambda>entry.
             and_then (lookup entry key) (\<lambda>dst.
             and_then (tensor_slice_assign dst (fst offsets) (snd offsets) src) (\<lambda>dst'.
               Inr (AList.update param_name (AList.update key dst' entry) merged))))))))))
          state_keys merged_tensor)"

text \<open>\<^verbatim>\<open>apply_offsets\<close> on the merged gradient accumulator (lines 421-424).\<close>

definition apply_offsets_grads ::
  "(string \<times> 'a tensor) list \<Rightarrow> ((nat \<times> nat) \<times> (string \<times> 'a tensor) list) list
    \<Rightarrow> string \<Rightarrow> nat \<times> nat \<Rightarrow> nat \<Rightarrow> nat \<Rightarrow> error + (string \<times> 'a tensor) list" where
  "apply_offsets_grads merged_tensor sharded_states param_name offsets tp dp =
     and_then (lookup sharded_states (tp, dp)) (\<lambda>shard.
     and_then (lookup shard param_name) (\<lambda>src.
     and_then (lookup merged_tensor param_name) (\<lambda>dst.
     and_then (tensor_slice_assign dst (fst offsets) (snd offsets) src) (\<lambda>dst'.
       Inr (AList.update param_name dst' merged_tensor)))))"

text \<open>The two loops over the offset table of the manifest (lines 450-454 and 475-477).\<close>

definition table_entries :: "offsets_table \<Rightarrow> (string \<times> nat \<times> (nat \<times> nat)) list" where
  "table_entries table = concat (map (\<lambda>(p_name, offsets). map (\<lambda>(dp, offset). (p_name, dp, offset)) offsets) table)"

definition merge_optim_states ::
  "'a state_dict \<Rightarrow> (string \<times> (string \<times> 'a tensor) list) list
    \<Rightarrow> ((nat \<times> nat) \<times> (nat \<times> (string \<times> 'a tensor) list) list) list
    \<Rightarrow> offsets_table \<Rightarrow> nat \<Rightarrow> string list
    \<Rightarrow> error + (string \<times> (string \<times> 'a tensor) list) list" where
  "merge_optim_states sd merged sharded table tp state_keys =
     for_each
       (\<lambda>m (p_name, dp, offset). apply_offsets_states sd m sharded p_name offset tp dp state_keys)
       (table_entries table) merged"

definition merge_gradients ::
  "(string \<times> 'a tensor) list \<Rightarrow> ((nat \<times> nat) \<times> (string \<times> 'a tensor) list) list
    \<Rightarrow> offsets_table \<Rightarrow> nat \<Rightarrow> error + (string \<times> 'a tensor) list" where
  "merge_gradients merged sharded table tp =
     for_each
       (\<lambda>m (p_name, dp, offset). apply_offsets_grads m sharded p_name offset tp dp)
       (table_entries table) merged"

text \<open>
  The value the variable \<^verbatim>\<open>dp_rank\<close> holds once those loops are over: the last key they
  visited, and no value when they visited none.
\<close>

definition last_dp_rank :: "offsets_table \<Rightarrow> nat option" where
  "last_dp_rank table =
     (case table_entries table of [] \<Rightarrow> None | e # es \<Rightarrow> Some (fst (snd (last (e # es)))))"

text \<open>Reading the offset table of the running optimizer; a table that is None cannot be indexed.\<close>

definition optimizer_offsets :: "'s wrapper \<Rightarrow> string \<Rightarrow> nat \<Rightarrow> error + (nat \<times> nat)" where
  "optimizer_offsets optimizer param_name r =
     (case param_name_to_dp_rank_offsets optimizer of
        None \<Rightarrow> Inl TypeError
      | Some table \<Rightarrow> and_then (lookup table param_name) (\<lambda>ranks. lookup ranks r))"

definition set_state :: "'a state_dict \<Rightarrow> nat \<Rightarrow> string \<Rightarrow> 'a tensor \<Rightarrow> 'a state_dict" where
  "set_state sd param_index state_name t =
     sd\<lparr>state := AList.update param_index
                    (AList.update state_name t (case map_of (state sd) param_index of None \<Rightarrow> [] | Some st \<Rightarrow> st))
                    (state sd)\<rparr>"

text \<open>Lines 456-467: every state tensor becomes the slice of the current data-parallel rank.\<close>

definition update_state_slices ::
  "'a state_dict wrapper \<Rightarrow> nat \<Rightarrow> (string \<times> (string \<times> 'a tensor) list) list \<Rightarrow> string list
    \<Rightarrow> 'a state_dict \<Rightarrow> 'a state_dict \<times> error option" where
  "update_state_slices optimizer current_dp_rank merged_optim_states state_names sd0 =
     for_each_mut
       (\<lambda>sd param_index.
          case (case names sd of
                  None \<Rightarrow> Inl KeyError
                | Some nms \<Rightarrow>
                    (case filter (\<lambda>(idx, name). idx = param_index) nms of
                       [] \<Rightarrow> Inl IndexError
                     | (idx, name) # rest \<Rightarrow> Inr name)) of
            Inl e \<Rightarrow> (sd, Some e)
          | Inr param_name \<Rightarrow>
              for_each_mut
                (\<lambda>sd1 state_name.
                   case and_then (optimizer_offsets optimizer param_name current_dp_rank) (\<lambda>current_offsets.
                        and_then (lookup merged_optim_states param_name) (\<lambda>entry.
                        and_then (lookup entry state_name) (\<lambda>merged.
                          let sliced_tensor = get_sliced_tensor merged (fst current_offsets) (snd current_offsets)
                          in if numel sliced_tensor > 0 then Inr sliced_tensor else Inl AssertionError))) of
                     Inl e \<Rightarrow> (sd1, Some e)
                   | Inr sliced_tensor \<Rightarrow> (set_state sd1 param_index state_name sliced_tensor, None))
                state_names sd)
       (map fst (state sd0)) sd0"

text \<open>
  Lines 479-485: the gradient accumulator. The offsets are read under \<^verbatim>\<open>int(dp_rank)\<close>,
  the variable the loops over the manifest left behind.
\<close>

definition update_gradient_accumulator ::
  "'a state_dict wrapper \<Rightarrow> nat option \<Rightarrow> (string \<times> 'a tensor) list
    \<Rightarrow> 'a state_dict \<Rightarrow> 'a state_dict \<times> error option" where
  "update_gradient_accumulator optimizer dp_rank_var merged_grad_accumulator sd0 =
     (case gradient_accumulator sd0 of
        None \<Rightarrow> (sd0, Some KeyError)
      | Some acc0 \<Rightarrow>
          for_each_mut
            (\<lambda>sd p_name.
               case (case dp_rank_var of
                       None \<Rightarrow> Inl NameError
                     | Some r \<Rightarrow>
                         and_then (optimizer_offsets optimizer p_name r) (\<lambda>new_offset.
                         and_then (present (gradient_accumulator sd)) (\<lambda>acc.
                         and_then (lookup acc p_name) (\<lambda>old.
                         and_then (lookup merged_grad_accumulator p_name) (\<lambda>merged.
                           if device old = device merged
                           then Inr (AList.update p_name (tensor_slice merged (fst new_offset) (snd new_offset)) acc)
                           else Inl AssertionError))))) of
                 Inl e \<Rightarrow> (sd, Some e)
               | Inr acc' \<Rightarrow> (sd\<lparr>gradient_accumulator := Some acc'\<rparr>, None))
            (map fst acc0) sd0)"

text \<open>
  Lines 441-485, entered when the data-parallel size of the checkpoint is not the current
  one. \<open>state_dict\<close> is the local dictionary the earlier branch built; the result is that
  dictionary as the block leaves it, and the exception raised, if any.
\<close>

definition OPTIMIZER_STATE_NAMES :: "'a state_dict \<Rightarrow> error + string list" where
  "OPTIMIZER_STATE_NAMES sd =
     and_then (lookup (state sd) 0) (\<lambda>optim_state. Inr (filter (\<lambda>k. k \<noteq> ''step'') (map fst optim_state)))"

definition dp_reshard ::
  "(string \<Rightarrow> nat \<times> nat \<times> nat) \<Rightarrow> ('a::zero) state_dict wrapper \<Rightarrow> parallel_context \<Rightarrow> path
    \<Rightarrow> device option \<Rightarrow> config \<Rightarrow> 'a filesystem \<Rightarrow> string list \<Rightarrow> 'a state_dict
    \<Rightarrow> 'a state_dict \<times> error option" where
  "dp_reshard extract optimizer pc root map_location ckp_optimizer_config fs shard_paths sd =
     (case and_then (OPTIMIZER_STATE_NAMES sd) (\<lambda>state_names.
           and_then (present (configs_orig_param_shapes ckp_optimizer_config)) (\<lambda>shapes.
           and_then (load_sharded_states extract fs root shard_paths map_location (\<lambda>c. Some (state c))) (\<lambda>sharded.
           and_then (present (configs_param_name_to_dp_rank_offsets ckp_optimizer_config)) (\<lambda>table.
           and_then (merge_optim_states sd (create_merged_optim_states shapes map_location) sharded table
                       (tp_pg_rank pc) state_names) (\<lambda>merged.
             Inr (state_names, shapes, table, merged)))))) of
        Inl e \<Rightarrow> (sd, Some e)
      | Inr (state_names, shapes, table, merged_optim_states) \<Rightarrow>
          (case update_state_slices optimizer (dp_pg_rank pc) merged_optim_states state_names sd of
             (sd1, Some e) \<Rightarrow> (sd1, Some e)
           | (sd1, None) \<Rightarrow>
               if tp_size ckp_optimizer_config \<noteq> tp_pg_size pc then (sd1, Some AssertionError)
               else
                 (case and_then (load_sharded_states extract fs root shard_paths map_location gradient_accumulator)
                         (\<lambda>sharded. merge_gradients (create_merged_gradients shapes map_location) sharded table
                                      (tp_pg_rank pc)) of
                    Inl e \<Rightarrow> (sd1, Some e)
                  | Inr merged_grad_accumulator \<Rightarrow>
                      update_gradient_accumulator optimizer (last_dp_rank table) merged_grad_accumulator sd1)))"

subsection \<open>Loading under another tensor-parallel or pipeline-parallel size (lines 200-364)\<close>

text \<open>
  What the loop reads of a parameter of the model: \<^verbatim>\<open>is_tied\<close>, the name
  \<^verbatim>\<open>get_tied_info().name\<close>, \<^verbatim>\<open>is_sharded\<close> and \<^verbatim>\<open>get_sharded_info()\<close>. The model is the
  list of the names of \<^verbatim>\<open>model.state_dict()\<close>, in order, each with its parameter, or with
  None when \<^verbatim>\<open>get_parameter\<close> gives no NanotronParameter.
\<close>

record 'nm nanotron_parameter =
  is_tied :: bool
  tied_name :: string
  is_sharded :: bool
  sharded_info :: 'nm

type_synonym 'a ckp_states = "((nat \<times> nat) \<times> 'a state_dict) list"

text \<open>
  The functions of nanotron.optim.zero and nanotron.serialize.utils the loop calls are
  not under src/; they are parameters. \<open>merge_and_shard_tp_tensors\<close> takes the pair of
  buffers the loop allocated for the state key and returns them with the tensor it yields.
\<close>

record ('a, 'b, 'cm, 'nm) externals =
  find_optim_index_from_param_name :: "string \<Rightarrow> 'a ckp_states \<Rightarrow> nat \<Rightarrow> nat option"
  merge_and_shard_tp_tensors :: "'b \<Rightarrow> 'a tensor \<Rightarrow> 'cm \<Rightarrow> 'nm \<Rightarrow> 'b \<times> 'a tensor"
  new_buffers :: "'nm nanotron_parameter \<Rightarrow> 'b"
  merge_dp_shard_in_zero1_optimizer :: "config \<Rightarrow> string list \<Rightarrow> error + 'a ckp_states"
  extract_pp_tp :: "string \<Rightarrow> nat \<times> nat"
  extract_pp_dp_tp :: "string \<Rightarrow> nat \<times> nat \<times> nat"

text \<open>\<^verbatim>\<open>param_name.replace("module.", "")\<close>.\<close>

function str_replace_module :: "string \<Rightarrow> string" where
  "str_replace_module [] = []"
| "str_replace_module (c # cs) =
     (if take 7 (c # cs) = ''module.'' then str_replace_module (drop 7 (c # cs))
      else c # str_replace_module cs)"
  by pat_completeness auto
termination
  by (relation "measure length") auto

type_synonym 'cm shard_metadata = "(string \<times> ((nat \<times> nat) \<times> 'cm) list) list"

definition get_checkpoint_state_metadata :: "'cm shard_metadata \<Rightarrow> string \<Rightarrow> nat \<Rightarrow> nat \<Rightarrow> error + 'cm" where
  "get_checkpoint_state_metadata param_shard_metadata param_name pp tp =
     and_then (lookup param_shard_metadata (str_replace_module param_name)) (\<lambda>by_rank. lookup by_rank (pp, tp))"

definition view :: "'a tensor \<Rightarrow> nat list \<Rightarrow> error + 'a tensor" where
  "view t shape = (if prod_list shape = numel t then Inr t else Inl RuntimeError)"

definition flatten :: "'a tensor \<Rightarrow> 'a tensor" where
  "flatten t = t"

definition is_zero_checkpoint :: "config \<Rightarrow> bool" where
  "is_zero_checkpoint ckp_optimizer_config = (optimizer_type ckp_optimizer_config = ZeroDistributedOptimizer)"

text \<open>Lines 219-244: the shards of the checkpoint, keyed by (pp_rank, tp_rank).\<close>

definition load_ckp_sharded_optim_states ::
  "('a, 'b, 'cm, 'nm) externals \<Rightarrow> config \<Rightarrow> 'a filesystem \<Rightarrow> path \<Rightarrow> device option
    \<Rightarrow> error + 'a ckp_states" where
  "load_ckp_sharded_optim_states ext ckp_optimizer_config fs root map_location =
     (if is_zero_checkpoint ckp_optimizer_config then
        merge_dp_shard_in_zero1_optimizer ext ckp_optimizer_config
          (glob (listdir fs root)
             (zero1_shard_pattern (pp_size ckp_optimizer_config) (dp_size ckp_optimizer_config)
                (tp_size ckp_optimizer_config) (expert_parallel_size ckp_optimizer_config)))
      else
        for_each
          (\<lambda>states shard_path.
             and_then (torch_load fs (root @ [shard_path]) map_location) (\<lambda>sd.
               Inr (AList.update (extract_pp_tp ext shard_path) sd states)))
          (glob (listdir fs root)
             (zero0_shard_pattern (pp_size ckp_optimizer_config) (tp_size ckp_optimizer_config)))
          [])"

text \<open>Lines 250-251: the sorted state names of shard (0, 0), without "step".\<close>

definition ckp_state_names :: "'a ckp_states \<Rightarrow> error + string list" where
  "ckp_state_names ckp_sharded_optim_states =
     and_then (lookup ckp_sharded_optim_states (0, 0)) (\<lambda>shard.
     and_then (lookup (state shard) 0) (\<lambda>optim_state.
       let state_names = sort (remdups (filter (\<lambda>k. k \<noteq> ''step'') (map fst optim_state)))
       in if state_names = [] then Inl IndexError
          else and_then (lookup optim_state (hd state_names)) (\<lambda>t. Inr state_names)))"

definition ckp_state_tensor :: "'a state_dict \<Rightarrow> nat \<Rightarrow> string \<Rightarrow> error + 'a tensor" where
  "ckp_state_tensor ckp_optim_state old_optim_state_index state_key =
     and_then (lookup (state ckp_optim_state) old_optim_state_index) (\<lambda>optim_state.
       lookup optim_state state_key)"

definition set_entry ::
  "(nat \<times> (string \<times> 'a tensor) list) list \<Rightarrow> nat \<Rightarrow> string \<Rightarrow> 'a tensor \<Rightarrow> (nat \<times> (string \<times> 'a tensor) list) list" where
  "set_entry new_state param_index state_key t =
     AList.update param_index
       (AList.update state_key t (case map_of new_state param_index of None \<Rightarrow> [] | Some st \<Rightarrow> st))
       new_state"

text \<open>Lines 284-333: a sharded parameter, one state key after the other.\<close>

definition restore_sharded ::
  "('a, 'b, 'cm, 'nm) externals \<Rightarrow> config \<Rightarrow> 'cm shard_metadata \<Rightarrow> 'a ckp_states \<Rightarrow> string list
    \<Rightarrow> nat \<Rightarrow> string \<Rightarrow> string \<Rightarrow> 'nm nanotron_parameter
    \<Rightarrow> (nat \<times> (string \<times> 'a tensor) list) list \<Rightarrow> error + (nat \<times> (string \<times> 'a tensor) list) list" where
  "restore_sharded ext ckp_optimizer_config param_shard_metadata ckp_sharded_optim_states state_names
      param_index param_name base_name param new_state0 =
     for_each
       (\<lambda>new_state state_key.
          and_then
            (for_each
               (\<lambda>(st, buffers) ((pp, tp), ckp_optim_state).
                  case find_optim_index_from_param_name ext base_name ckp_sharded_optim_states pp of
                    None \<Rightarrow> Inr (st, buffers)
                  | Some old_optim_state_index \<Rightarrow>
                      and_then (ckp_state_tensor ckp_optim_state old_optim_state_index state_key) (\<lambda>ckp_shard_data.
                      and_then
                        (if is_tied param then
                           and_then (lookup param_shard_metadata (str_replace_module param_name)) (\<lambda>by_rank.
                             case by_rank of [] \<Rightarrow> Inl StopIteration | (k, v) # rest \<Rightarrow> Inr (fst k))
                         else Inr pp) (\<lambda>metadata_pp_rank.
                      and_then (get_checkpoint_state_metadata param_shard_metadata param_name metadata_pp_rank tp)
                        (\<lambda>ckp_shard_metadata.
                      and_then
                        (if is_zero_checkpoint ckp_optimizer_config then
                           and_then (present (configs_orig_param_shapes ckp_optimizer_config)) (\<lambda>shapes.
                           and_then (lookup shapes param_name) (\<lambda>orig_shape. view ckp_shard_data orig_shape))
                         else Inr ckp_shard_data) (\<lambda>shard_data.
                        case merge_and_shard_tp_tensors ext buffers shard_data ckp_shard_metadata (sharded_info param) of
                          (buffers', t) \<Rightarrow> Inr (set_entry st param_index state_key t, buffers'))))))
               ckp_sharded_optim_states (new_state, new_buffers ext param))
            (\<lambda>(st, buffers). Inr st))
       state_names new_state0"

text \<open>
  Lines 334-347: a parameter that is not sharded. The second component is the variable
  \<^verbatim>\<open>state_key\<close>, which the inner loop binds only in a shard that holds the parameter.
\<close>

definition restore_unsharded ::
  "('a, 'b, 'cm, 'nm) externals \<Rightarrow> 'a ckp_states \<Rightarrow> string list \<Rightarrow> nat \<Rightarrow> string
    \<Rightarrow> (nat \<times> (string \<times> 'a tensor) list) list \<times> string option
    \<Rightarrow> error + (nat \<times> (string \<times> 'a tensor) list) list \<times> string option" where
  "restore_unsharded ext ckp_sharded_optim_states state_names param_index base_name start =
     for_each
       (\<lambda>(new_state, state_key_var) ((pp, tp), ckp_optim_state).
          case find_optim_index_from_param_name ext base_name ckp_sharded_optim_states pp of
            None \<Rightarrow> Inr (new_state, state_key_var)
          | Some old_optim_state_index \<Rightarrow>
              for_each
                (\<lambda>(st, v) state_key.
                   and_then (ckp_state_tensor ckp_optim_state old_optim_state_index state_key) (\<lambda>t.
                     Inr (set_entry st param_index state_key t, Some state_key)))
                state_names (new_state, state_key_var))
       ckp_sharded_optim_states start"

text \<open>
  Lines 349-359, after the shards were read: the flattening for a ZeRO-1 checkpoint under
  the last \<^verbatim>\<open>state_key\<close>, and the step, read from the shard the loops visited last under
  the index found for it.
\<close>

definition flatten_last ::
  "config \<Rightarrow> nat \<Rightarrow> string option \<Rightarrow> (nat \<times> (string \<times> 'a tensor) list) list
    \<Rightarrow> error + (nat \<times> (string \<times> 'a tensor) list) list" where
  "flatten_last ckp_optimizer_config param_index state_key_var new_state =
     (if is_zero_checkpoint ckp_optimizer_config then
        (case state_key_var of
           None \<Rightarrow> Inl NameError
         | Some state_key \<Rightarrow>
             and_then (lookup (case map_of new_state param_index of None \<Rightarrow> [] | Some st \<Rightarrow> st) state_key) (\<lambda>t.
               Inr (set_entry new_state param_index state_key (flatten t))))
      else Inr new_state)"

definition restore_step ::
  "('a, 'b, 'cm, 'nm) externals \<Rightarrow> 'a ckp_states \<Rightarrow> nat \<Rightarrow> string
    \<Rightarrow> (nat \<times> (string \<times> 'a tensor) list) list \<Rightarrow> error + (nat \<times> (string \<times> 'a tensor) list) list" where
  "restore_step ext ckp_sharded_optim_states param_index base_name new_state =
     (case ckp_sharded_optim_states of
        [] \<Rightarrow> Inl NameError
      | s # ss \<Rightarrow>
          (case last (s # ss) of ((pp, tp), ckp_optim_state) \<Rightarrow>
             (case find_optim_index_from_param_name ext base_name ckp_sharded_optim_states pp of
                None \<Rightarrow> Inl KeyError
              | Some old_optim_state_index \<Rightarrow>
                  and_then (lookup (state ckp_optim_state) old_optim_state_index) (\<lambda>optim_state.
                    case map_of optim_state ''step'' of
                      None \<Rightarrow> Inr new_state
                    | Some step \<Rightarrow> Inr (set_entry new_state param_index ''step'' step)))))"

text \<open>
  One round of the loop of line 259. The state of the loop is the new state, the new map
  of names and the variable \<^verbatim>\<open>state_key\<close>.
\<close>

definition load_param ::
  "('a, 'b, 'cm, 'nm) externals \<Rightarrow> config \<Rightarrow> 'cm shard_metadata \<Rightarrow> 'a ckp_states \<Rightarrow> string list
    \<Rightarrow> (nat \<times> (string \<times> 'a tensor) list) list \<times> (nat \<times> string) list \<times> string option
    \<Rightarrow> nat \<times> string \<times> 'nm nanotron_parameter option
    \<Rightarrow> error + (nat \<times> (string \<times> 'a tensor) list) list \<times> (nat \<times> string) list \<times> string option" where
  "load_param ext ckp_optimizer_config param_shard_metadata ckp_sharded_optim_states state_names loop_state p =
     (case loop_state of (new_state, new_optim_state_param_names, state_key_var) \<Rightarrow>
     (case p of (param_index, param_name, param_opt) \<Rightarrow>
     (case param_opt of
        None \<Rightarrow> Inl NotImplementedError
      | Some param \<Rightarrow>
          let base_name = (if is_tied param then tied_name param else param_name) in
          if param_name \<noteq> base_name \<and> base_name \<in> set (map snd new_optim_state_param_names)
          then Inr loop_state
          else
            let new_names = AList.update param_index base_name new_optim_state_param_names in
            and_then
              (if is_sharded param then
                 and_then (restore_sharded ext ckp_optimizer_config param_shard_metadata ckp_sharded_optim_states
                             state_names param_index param_name base_name param new_state)
                   (\<lambda>st. Inr (st, Some (last state_names)))
               else restore_unsharded ext ckp_sharded_optim_states state_names param_index base_name
                      (new_state, state_key_var))
              (\<lambda>(st, v).
                 and_then (flatten_last ckp_optimizer_config param_index v st) (\<lambda>st1.
                 and_then (restore_step ext ckp_sharded_optim_states param_index base_name st1) (\<lambda>st2.
                   Inr (st2, new_names, v)))))))"

text \<open>Lines 246-364: the new state dictionary, from the shards already read.\<close>

definition restore_from_shards ::
  "('a, 'b, 'cm, 'nm) externals \<Rightarrow> 'a state_dict wrapper \<Rightarrow> config \<Rightarrow> 'cm shard_metadata
    \<Rightarrow> (string \<times> 'nm nanotron_parameter option) list \<Rightarrow> 'a ckp_states \<Rightarrow> error + 'a state_dict" where
  "restore_from_shards ext optimizer ckp_optimizer_config metadata params ckp_sharded_optim_states =
     and_then (ckp_state_names ckp_sharded_optim_states) (\<lambda>state_names.
     and_then
       (for_each (load_param ext ckp_optimizer_config metadata ckp_sharded_optim_states state_names)
          (map (\<lambda>(i, (name, param)). (i, name, param)) (enumerate 0 params))
          ([], [], None))
       (\<lambda>(new_state, new_optim_state_param_names, v).
          Inr ((state_dict_of optimizer)\<lparr>state := new_state,
                 names := Some new_optim_state_param_names\<rparr>)))"

definition topology_agnostic_load ::
  "('a, 'b, 'cm, 'nm) externals \<Rightarrow> 'a state_dict wrapper \<Rightarrow> config \<Rightarrow> 'cm shard_metadata option
    \<Rightarrow> (string \<times> 'nm nanotron_parameter option) list option \<Rightarrow> 'a filesystem \<Rightarrow> path \<Rightarrow> device option
    \<Rightarrow> error + 'a state_dict" where
  "topology_agnostic_load ext optimizer ckp_optimizer_config param_shard_metadata model fs root map_location =
     (case param_shard_metadata of
        None \<Rightarrow> Inl AssertionError
      | Some metadata \<Rightarrow>
          (case model of
             None \<Rightarrow> Inl AssertionError
           | Some params \<Rightarrow>
               and_then (load_ckp_sharded_optim_states ext ckp_optimizer_config fs root map_location)
                 (restore_from_shards ext optimizer ckp_optimizer_config metadata params)))"

subsection \<open>load_optimizer (lines 180-487)\<close>

definition load_optimizer ::
  "('a::zero, 'b, 'cm, 'nm) externals \<Rightarrow> 'a state_dict wrapper \<Rightarrow> parallel_context \<Rightarrow> path
    \<Rightarrow> device option \<Rightarrow> 'cm shard_metadata option \<Rightarrow> (string \<times> 'nm nanotron_parameter option) list option
    \<Rightarrow> 'a filesystem \<Rightarrow> error + 'a state_dict wrapper" where
  "load_optimizer ext optimizer pc root_folder map_location param_shard_metadata model fs =
     (let root = root_folder @ [''optimizer''] in
      and_then (read_config fs (root @ [OPTIMIZER_CONFIG_FILE_NAME])) (\<lambda>ckp_optimizer_config.
      and_then
        (if tp_size ckp_optimizer_config \<noteq> tp_pg_size pc \<or> pp_size ckp_optimizer_config \<noteq> pp_pg_size pc
         then topology_agnostic_load ext optimizer ckp_optimizer_config param_shard_metadata model fs root
                map_location
         else direct_load optimizer pc root map_location ckp_optimizer_config fs)
        (\<lambda>sd.
           if isinstance optimizer ZeroDistributedOptimizer then
             (let shard_paths =
                    glob (listdir fs root)
                      (zero1_shard_pattern (pp_size ckp_optimizer_config) (dp_size ckp_optimizer_config)
                         (tp_size ckp_optimizer_config) (expert_parallel_size ckp_optimizer_config))
              in if dp_size ckp_optimizer_config \<noteq> dp_pg_size pc then
                   (case dp_reshard (extract_pp_dp_tp ext) optimizer pc root map_location ckp_optimizer_config
                           fs shard_paths sd of
                      (sd', Some e) \<Rightarrow> Inl e
                    | (sd', None) \<Rightarrow> Inr (load_state_dict optimizer sd'))
                 else Inr (load_state_dict optimizer sd))
           else Inr optimizer)))"

subsection \<open>Predicates of the statements, and concrete optimizers and checkpoints\<close>

definition is_shard_write :: "'a fs_op \<Rightarrow> bool" where
  "is_shard_write op = (case op of Write p (ShardFile sd) \<Rightarrow> True | other \<Rightarrow> False)"

definition adam :: "'s \<Rightarrow> 's base_optimizer" where
  "adam sd = \<lparr>base_mro = [''AdamW''], base_state = sd\<rparr>"

definition named_optimizer :: "'s \<Rightarrow> 's wrapper" where
  "named_optimizer sd =
     InheritFromOtherOptimizer [''NamedOptimizer'', ''InheritFromOtherOptimizer''] None [] (Inl (adam sd))"

definition zero_optimizer :: "offsets_table \<Rightarrow> param_shapes \<Rightarrow> 's \<Rightarrow> 's wrapper" where
  "zero_optimizer table shapes sd =
     InheritFromOtherOptimizer [ZeroDistributedOptimizer, ''InheritFromOtherOptimizer''] (Some table) shapes
       (Inr (named_optimizer sd))"


text \<open>A ZeroDistributedOptimizer whose \<^verbatim>\<open>param_name_to_dp_rank_offsets\<close> is None.\<close>

definition tableless_zero_optimizer :: "'s \<Rightarrow> 's wrapper" where
  "tableless_zero_optimizer sd =
     InheritFromOtherOptimizer [ZeroDistributedOptimizer, ''InheritFromOtherOptimizer''] None []
       (Inr (named_optimizer sd))"

text \<open>The process of tensor-parallel rank \<open>tp\<close> and data-parallel rank \<open>dp\<close>, one pipeline stage, one expert group.\<close>

definition ranks :: "nat \<times> nat \<Rightarrow> nat \<times> nat \<Rightarrow> nat \<Rightarrow> parallel_context" where
  "ranks tp dp world =
     \<lparr>tp_pg_rank = fst tp, tp_pg_size = snd tp, pp_pg_rank = 0, pp_pg_size = 1,
      dp_pg_rank = fst dp, dp_pg_size = snd dp, expert_pg_rank = 0, expert_pg_size = 1,
      world_pg_rank = world\<rparr>"

definition cpu_tensor :: "int list \<Rightarrow> int tensor" where
  "cpu_tensor xs = \<lparr>device = CPU, data = xs\<rparr>"

text \<open>The state of one parameter \<open>w\<close>: its two moments and, when given, its gradient accumulator.\<close>

definition adam_state :: "int list \<Rightarrow> int list \<Rightarrow> int list option \<Rightarrow> int state_dict" where
  "adam_state m v g =
     \<lparr>state = [(0, [(''exp_avg'', cpu_tensor m), (''exp_avg_sq'', cpu_tensor v)])],
      names = Some [(0, ''w'')],
      gradient_accumulator = map_option (\<lambda>xs. [(''w'', cpu_tensor xs)]) g\<rparr>"

definition empty_fs :: "int filesystem" where
  "empty_fs = \<lparr>dirs = {}, files = []\<rparr>"

definition halves :: offsets_table where
  "halves = [(''w'', [(0, (0, 2)), (1, (2, 4))])]"

text \<open>Externals for the runs that never reach the loop over the parameters.\<close>

definition no_externals :: "(int, unit, unit, unit) externals" where
  "no_externals =
     \<lparr>find_optim_index_from_param_name = (\<lambda>name states pp. None),
      merge_and_shard_tp_tensors = (\<lambda>buffers t cm nm. (buffers, t)),
      new_buffers = (\<lambda>param. ()),
      merge_dp_shard_in_zero1_optimizer = (\<lambda>c paths. Inr []),
      extract_pp_tp = (\<lambda>name. (0, 0)),
      extract_pp_dp_tp = (\<lambda>name. (0, 0, 0))\<rparr>"

text \<open>
  A ZeRO-1 optimizer saved by the two data-parallel ranks of a run with tp = pp = 1 and
  dp = 2; an optimizer that is not ZeRO saved by a single process; and one saved by the
  two tensor-parallel ranks of a run with tp = 2.
\<close>

definition zero_dp2_checkpoint :: "int filesystem" where
  "zero_dp2_checkpoint =
     fst (save_optimizer (zero_optimizer halves [(''w'', [4])] (adam_state [3, 4] [7, 8] None))
            (ranks (0, 1) (1, 2) 1) [''ckpt'']
       (fst (save_optimizer (zero_optimizer halves [(''w'', [4])] (adam_state [1, 2] [5, 6] None))
               (ranks (0, 1) (0, 2) 0) [''ckpt''] empty_fs)))"

definition plain_checkpoint :: "int filesystem" where
  "plain_checkpoint =
     fst (save_optimizer (named_optimizer (adam_state [1, 2] [5, 6] None)) (ranks (0, 1) (0, 1) 0)
            [''ckpt''] empty_fs)"

definition tp2_checkpoint :: "int filesystem" where
  "tp2_checkpoint =
     fst (save_optimizer (named_optimizer (adam_state [3, 4] [7, 8] None)) (ranks (1, 2) (0, 1) 1) [''ckpt'']
       (fst (save_optimizer (named_optimizer (adam_state [1, 2] [5, 6] None)) (ranks (0, 2) (0, 1) 0)
               [''ckpt''] empty_fs)))"

text \<open>A state dict whose tensors are on a GPU.\<close>

definition gpu_state :: "int state_dict" where
  "gpu_state =
     \<lparr>state = [(0, [(''exp_avg'', \<lparr>device = CUDA 0, data = [1, 2]\<rparr>)])],
      names = None, gradient_accumulator = Some []\<rparr>"

text \<open>
  Modelled from the spec: \<^verbatim>\<open>extract_parallel_ranks_from_shard_path\<close> and
  \<^verbatim>\<open>find_optim_index_from_param_name\<close> of nanotron.optim.zero are not under src/. Section
  4.3 of the spec has the file name encode the rank coordinate as
  \<^verbatim>\<open>optimizer_pp-<r>-of-<n>_dp-<r>-of-<n>_tp-<r>-of-<n>_exp-<r>-of-<n>\<close>, so the ranks of a
  shard are the numbers after \<^verbatim>\<open>_pp-\<close>, \<^verbatim>\<open>_dp-\<close> and \<^verbatim>\<open>_tp-\<close>; the index of a parameter
  is the key its name has in the \<^verbatim>\<open>names\<close> map of the shard of that pipeline rank and
  tensor-parallel rank 0.
\<close>

fun after_tag :: "string \<Rightarrow> string \<Rightarrow> string option" where
  "after_tag tag [] = (if tag = [] then Some [] else None)"
| "after_tag tag (c # cs) =
     (if take (length tag) (c # cs) = tag then Some (drop (length tag) (c # cs)) else after_tag tag cs)"

definition nat_of_digits :: "string \<Rightarrow> nat" where
  "nat_of_digits s =
     foldl (\<lambda>n c. 10 * n + digit_value c) 0 (takeWhile (\<lambda>c. c \<in> set ''0123456789'') s)"

definition rank_after :: "string \<Rightarrow> string \<Rightarrow> nat" where
  "rank_after tag name = (case after_tag tag name of None \<Rightarrow> 0 | Some rest \<Rightarrow> nat_of_digits rest)"

definition shard_ranks :: "string \<Rightarrow> nat \<times> nat \<times> nat" where
  "shard_ranks name = (rank_after ''_pp-'' name, rank_after ''_dp-'' name, rank_after ''_tp-'' name)"

definition index_by_names :: "string \<Rightarrow> 'a ckp_states \<Rightarrow> nat \<Rightarrow> nat option" where
  "index_by_names param_name ckp_sharded_optim_states pp =
     (case map_of ckp_sharded_optim_states (pp, 0) of
        None \<Rightarrow> None
      | Some shard \<Rightarrow>
          (case names shard of
             None \<Rightarrow> None
           | Some nms \<Rightarrow> get_key_by_value nms (str_replace_module param_name)))"

definition shard_externals :: "(int, unit, unit, unit) externals" where
  "shard_externals =
     \<lparr>find_optim_index_from_param_name = index_by_names,
      merge_and_shard_tp_tensors = (\<lambda>buffers t cm nm. (buffers, t)),
      new_buffers = (\<lambda>param. ()),
      merge_dp_shard_in_zero1_optimizer = (\<lambda>c paths. Inr []),
      extract_pp_tp = (\<lambda>name. (rank_after ''_pp-'' name, rank_after ''_tp-'' name)),
      extract_pp_dp_tp = shard_ranks\<rparr>"

text \<open>
  Offset tables of a parameter \<open>w\<close> of four elements: one element for each of four
  data-parallel ranks, all of them for a single rank, and the first two for a single rank,
  which leaves the elements 2 and 3 to no rank.
\<close>

definition quarters :: offsets_table where
  "quarters = [(''w'', [(0, (0, 1)), (1, (1, 2)), (2, (2, 3)), (3, (3, 4))])]"

definition whole :: offsets_table where
  "whole = [(''w'', [(0, (0, 4))])]"

definition first_half_only :: offsets_table where
  "first_half_only = [(''w'', [(0, (0, 2))])]"

text \<open>
  A ZeRO-1 optimizer with gradient accumulators saved by the four data-parallel ranks of
  a run with tp = pp = 1 and dp = 4, and one saved by a single process whose table leaves
  two elements of \<open>w\<close> out.
\<close>

definition zero_dp4_checkpoint :: "int filesystem" where
  "zero_dp4_checkpoint =
     fst (save_optimizer (zero_optimizer quarters [(''w'', [4])] (adam_state [4] [8] (Some [12])))
            (ranks (0, 1) (3, 4) 3) [''ckpt'']
       (fst (save_optimizer (zero_optimizer quarters [(''w'', [4])] (adam_state [3] [7] (Some [11])))
               (ranks (0, 1) (2, 4) 2) [''ckpt'']
          (fst (save_optimizer (zero_optimizer quarters [(''w'', [4])] (adam_state [2] [6] (Some [10])))
                  (ranks (0, 1) (1, 4) 1) [''ckpt'']
             (fst (save_optimizer (zero_optimizer quarters [(''w'', [4])] (adam_state [1] [5] (Some [9])))
                     (ranks (0, 1) (0, 4) 0) [''ckpt''] empty_fs)))))))"

definition gap_checkpoint :: "int filesystem" where
  "gap_checkpoint =
     fst (save_optimizer (zero_optimizer first_half_only [(''w'', [4])] (adam_state [1, 2] [5, 6] (Some [9, 10])))
            (ranks (0, 1) (0, 1) 0) [''ckpt''] empty_fs)"

text \<open>The manifest and the shard names of the ZeRO-1 checkpoint of two data-parallel ranks.\<close>

definition zero_dp2_config :: config where
  "zero_dp2_config =
     \<lparr>optimizer_type = ''ZeroDistributedOptimizer'', tp_size = 1, dp_size = 2, pp_size = 1,
      expert_parallel_size = 1, configs_param_name_to_dp_rank_offsets = Some halves,
      configs_orig_param_shapes = Some [(''w'', [4])]\<rparr>"

definition zero_dp2_shard_paths :: "string list" where
  "zero_dp2_shard_paths =
     [''optimizer_pp-0-of-1_dp-0-of-2_tp-0-of-1_exp-0-of-1.pt'',
      ''optimizer_pp-0-of-1_dp-1-of-2_tp-0-of-1_exp-0-of-1.pt'']"

text \<open>
  Shards of a checkpoint of an optimizer that is not ZeRO, keyed by (pp_rank, tp_rank),
  as lines 239-244 read them: two tensor-parallel shards of a parameter \<open>w\<close> whose steps
  are 5 and 7, and one shard of a parameter \<open>embed\<close>. The parameters of the model are not
  sharded; \<open>lm_head\<close> is tied to \<open>embed\<close>.
\<close>

definition adam_state_with_step :: "string \<Rightarrow> int list \<Rightarrow> int list \<Rightarrow> int \<Rightarrow> int state_dict" where
  "adam_state_with_step name m v step =
     \<lparr>state = [(0, [(''exp_avg'', cpu_tensor m), (''exp_avg_sq'', cpu_tensor v), (''step'', cpu_tensor [step])])],
      names = Some [(0, name)], gradient_accumulator = None\<rparr>"

definition two_step_shards :: "int ckp_states" where
  "two_step_shards =
     [((0, 0), adam_state_with_step ''w'' [1, 2] [5, 6] 5),
      ((0, 1), adam_state_with_step ''w'' [3, 4] [7, 8] 7)]"

definition embed_shards :: "int ckp_states" where
  "embed_shards = [((0, 0), adam_state_with_step ''embed'' [1, 2] [5, 6] 5)]"

definition tp2_config :: config where
  "tp2_config =
     \<lparr>optimizer_type = ''NamedOptimizer'', tp_size = 2, dp_size = 1, pp_size = 1,
      expert_parallel_size = 1, configs_param_name_to_dp_rank_offsets = None,
      configs_orig_param_shapes = None\<rparr>"

definition replicated_parameter :: "unit nanotron_parameter" where
  "replicated_parameter = \<lparr>is_tied = False, tied_name = [], is_sharded = False, sharded_info = ()\<rparr>"

definition tied_to_embed :: "unit nanotron_parameter" where
  "tied_to_embed = \<lparr>is_tied = True, tied_name = ''embed'', is_sharded = False, sharded_info = ()\<rparr>"

text \<open>Element \<open>i\<close> of the merged buffer of parameter \<open>p\<close> and state key \<open>key\<close>, when there is one.\<close>

definition element_at ::
  "(string \<times> (string \<times> 'a tensor) list) list \<Rightarrow> string \<Rightarrow> string \<Rightarrow> nat \<Rightarrow> 'a option" where
  "element_at merged p key i =
     (case map_of merged p of
        None \<Rightarrow> None
      | Some entry \<Rightarrow>
          (case map_of entry key of
             None \<Rightarrow> None
           | Some t \<Rightarrow> if i < numel t then Some (data t ! i) else None))"

section \<open>Properties\<close>

subsection \<open>Helper lemmas\<close>

lemma and_then_simps [simp]: "and_then (Inl e) f = Inl e" "and_then (Inr x) f = f x"
  by (simp_all add: and_then_def)

lemma and_then_Inr_iff: "and_then m f = Inr y \<longleftrightarrow> (\<exists>x. m = Inr x \<and> f x = Inr y)"
  by (cases m) simp_all


lemma save_filename_total: "\<exists>name. save_filename optimizer pc = Inr name"
  by (simp add: save_filename_def get_optimizer_filename_def)

lemma map_of_map_state_tensors:
  "map_of (map_state_tensors f st) i = map_option (map (\<lambda>(name, t). (name, f t))) (map_of st i)"
  by (induction st) (auto simp: map_state_tensors_def)

lemma map_of_map_named: "map_of (map (\<lambda>(name, t). (name, f t)) xs) k = map_option f (map_of xs k)"
  by (induction xs) auto

lemma exp_avg_device_type_moved:
  "exp_avg_device_type sd = Inr ty \<Longrightarrow>
   exp_avg_device_type (sd\<lparr>state := map_state_tensors (to dev) (state sd), gradient_accumulator := g\<rparr>)
     = Inr (device_type dev)"
  by (auto simp: exp_avg_device_type_def lookup_def and_then_def map_of_map_state_tensors map_of_map_named
        to_def split: option.splits sum.splits)

lemma all_on_device_moved:
  "all_on_device (sd\<lparr>state := map_state_tensors (to dev) (state sd),
                     gradient_accumulator := Some (map (\<lambda>(name, t). (name, to dev t)) acc)\<rparr>) dev"
  by (auto simp: all_on_device_def state_tensors_def accumulator_tensors_def map_state_tensors_def
        list_all_iff to_def)

lemma restore_step_Inr:
  "restore_step ext shards param_index base_name st1 = Inr st2 \<Longrightarrow>
   shards \<noteq> [] \<and>
   (\<exists>idx os. find_optim_index_from_param_name ext base_name shards (fst (fst (last shards))) = Some idx
      \<and> map_of (state (snd (last shards))) idx = Some os
      \<and> st2 = (case map_of os ''step'' of None \<Rightarrow> st1 | Some step \<Rightarrow> set_entry st1 param_index ''step'' step))"
  by (fastforce simp: restore_step_def lookup_def and_then_Inr_iff split: list.splits prod.splits option.splits)

lemma lookup_set_entry:
  "and_then (lookup (set_entry st i k t) i) (\<lambda>e. lookup e k) = Inr t"
  by (simp add: set_entry_def lookup_def update_conv')

lemma slice_assign_length: "slice_assign dst a b src = Inr xs \<Longrightarrow> length xs = length dst"
  by (auto simp: slice_assign_def py_slice_def Let_def min_def split: if_splits)

lemma slice_assign_outside:
  "slice_assign dst a b src = Inr xs \<Longrightarrow> \<not> (a \<le> i \<and> i < b) \<Longrightarrow> i < length dst \<Longrightarrow> xs ! i = dst ! i"
  by (auto simp: slice_assign_def py_slice_def Let_def min_def nth_append split: if_splits)

text \<open>What no round of a loop changes, the loop does not change.\<close>

lemma for_each_preserves:
  assumes "for_each body xs s = Inr s'"
    and "\<And>x s s'. x \<in> set xs \<Longrightarrow> body s x = Inr s' \<Longrightarrow> f s' = f s"
  shows "f s' = f s"
  using assms
proof (induction xs arbitrary: s)
  case Nil
  then show ?case by simp
next
  case (Cons x xs)
  from Cons.prems(1) obtain s1 where s1: "body s x = Inr s1" "for_each body xs s1 = Inr s'"
    by (auto simp: and_then_Inr_iff)
  have "f s' = f s1"
  proof (rule Cons.IH [OF s1(2)])
    fix y t t'
    assume "y \<in> set xs" "body t y = Inr t'"
    then show "f t' = f t" using Cons.prems(2) [of y t t'] by simp
  qed
  also have "f s1 = f s" using Cons.prems(2) [of x s s1] s1(1) by simp
  finally show ?case .
qed

lemma element_at_update:
  assumes "lookup m p' = Inr entry" "lookup entry k = Inr dst"
    and "tensor_slice_assign dst a b src = Inr dst'"
    and "p' \<noteq> p \<or> \<not> (a \<le> i \<and> i < b)"
  shows "element_at (AList.update p' (AList.update k dst' entry) m) p key i = element_at m p key i"
proof -
  from assms(3) obtain xs where xs: "slice_assign (data dst) a b (data src) = Inr xs" "dst' = dst\<lparr>data := xs\<rparr>"
    by (auto simp: tensor_slice_assign_def and_then_Inr_iff)
  have len: "numel dst' = numel dst"
    using xs slice_assign_length [OF xs(1)] by (simp add: numel_def)
  have same: "p' = p \<Longrightarrow> i < numel dst \<Longrightarrow> data dst' ! i = data dst ! i"
    using xs assms(4) slice_assign_outside [OF xs(1), of i] by (simp add: numel_def)
  from assms(1,2) have m: "map_of m p' = Some entry" "map_of entry k = Some dst"
    by (auto simp: lookup_def split: option.splits)
  show ?thesis
    using m len same
    by (auto simp: element_at_def update_conv' split: option.splits)
qed

lemma apply_offsets_states_outside:
  assumes "apply_offsets_states sd m sharded p' offs tp dp keys = Inr m'"
    and "p' \<noteq> p \<or> \<not> (fst offs \<le> i \<and> i < snd offs)"
  shows "element_at m' p key i = element_at m p key i"
proof -
  from assms(1) have run: "for_each
          (\<lambda>merged key.
             and_then (present (names sd)) (\<lambda>nms.
             and_then (lookup sharded (tp, dp)) (\<lambda>shard.
             and_then (present (get_key_by_value nms p')) (\<lambda>p_idx.
             and_then (lookup shard p_idx) (\<lambda>optim_state.
             and_then (lookup optim_state key) (\<lambda>src.
             and_then (lookup merged p') (\<lambda>entry.
             and_then (lookup entry key) (\<lambda>dst.
             and_then (tensor_slice_assign dst (fst offs) (snd offs) src) (\<lambda>dst'.
               Inr (AList.update p' (AList.update key dst' entry) merged))))))))))
          keys m = Inr m'"
    by (simp add: apply_offsets_states_def split: if_splits)
  show ?thesis
    by (rule for_each_preserves [OF run])
       (auto simp: and_then_Inr_iff element_at_update [OF _ _ _ assms(2)])
qed

lemma merge_optim_states_outside:
  assumes "merge_optim_states sd m sharded table tp keys = Inr m'"
    and "\<forall>(p_name, dp, offset) \<in> set (table_entries table). p_name = p \<longrightarrow> \<not> (fst offset \<le> i \<and> i < snd offset)"
  shows "element_at m' p key i = element_at m p key i"
  by (rule for_each_preserves [OF assms(1) [unfolded merge_optim_states_def]])
     (use assms(2) in \<open>auto simp: apply_offsets_states_outside\<close>)

lemma element_at_created:
  "element_at (create_merged_optim_states shapes map_location) p key i = Some x \<Longrightarrow> x = (0 :: 'a :: zero)"
  by (auto simp: element_at_def create_merged_optim_states_def map_of_map_named zeros_def to_location_def
        to_def numel_def split: option.splits if_splits)

text \<open>\<^verbatim>\<open>str\<close> is injective, and a file name determines the ranks printed in it.\<close>

lemma less_ten_cases: "d < 10 \<Longrightarrow> d \<in> {0, 1, 2, 3, 4, 5, 6, 7, 8, 9 :: nat}"
  by auto

lemma digit_value_digit_char: "d < 10 \<Longrightarrow> digit_value (digit_char d) = d"
  using less_ten_cases [of d] by (auto simp: digit_value_def digit_char_def)

lemma digit_char_is_digit: "d < 10 \<Longrightarrow> digit_char d \<in> set ''0123456789''"
  using less_ten_cases [of d] by (auto simp: digit_char_def)

lemma str_nat_digits: "set (str_nat n) \<subseteq> set ''0123456789''"
proof (induction n rule: str_nat.induct)
  case (1 n)
  show ?case
  proof (cases "n < 10")
    case True
    then show ?thesis using digit_char_is_digit [of n] by (subst str_nat.simps) simp
  next
    case False
    then show ?thesis
      using 1 digit_char_is_digit [of "n mod 10"] by (subst str_nat.simps) simp
  qed
qed

lemma value_of_str_nat: "foldl (\<lambda>n c. 10 * n + digit_value c) 0 (str_nat n) = n"
proof (induction n rule: str_nat.induct)
  case (1 n)
  show ?case
  proof (cases "n < 10")
    case True
    then show ?thesis by (subst str_nat.simps) (simp add: digit_value_digit_char)
  next
    case False
    then show ?thesis
      using 1 by (subst str_nat.simps) (simp add: digit_value_digit_char)
  qed
qed

lemma str_nat_inject:
  assumes "str_nat a = str_nat b"
  shows "a = b"
proof -
  from assms have "foldl (\<lambda>n c. 10 * n + digit_value c) 0 (str_nat a)
                     = foldl (\<lambda>n c. 10 * n + digit_value c) 0 (str_nat b)"
    by (rule arg_cong)
  then show ?thesis unfolding value_of_str_nat .
qed

lemma digits_split:
  assumes "set a \<subseteq> D" "set b \<subseteq> D" "c \<notin> D" "d \<notin> D" "a @ c # r = b @ d # s"
  shows "a = b \<and> c # r = d # s"
proof -
  have "takeWhile (\<lambda>x. x \<in> D) (a @ c # r) = a"
    using assms(1,3) by (simp add: takeWhile_append2 subset_iff)
  moreover have "takeWhile (\<lambda>x. x \<in> D) (b @ d # s) = b"
    using assms(2,4) by (simp add: takeWhile_append2 subset_iff)
  ultimately have "a = b" using assms(5) by simp
  with assms(5) show ?thesis by simp
qed

lemma str_nat_split_dash:
  assumes "str_nat a @ CHR ''-'' # r = str_nat b @ CHR ''-'' # s"
  shows "a = b \<and> r = s"
  using digits_split [OF str_nat_digits str_nat_digits _ _ assms] str_nat_inject
  by auto

lemma str_nat_split_underscore:
  assumes "str_nat a @ CHR ''_'' # r = str_nat b @ CHR ''_'' # s"
  shows "a = b \<and> r = s"
  using digits_split [OF str_nat_digits str_nat_digits _ _ assms] str_nat_inject
  by auto

lemma zero_filename_dp_rank:
  assumes "get_optimizer_filename (tr, ts) (pr, ps) (Some (dr, ds)) (Some (er, es)) (Some True)
             = get_optimizer_filename (tr', ts') (pr', ps') (Some (dr', ds')) (Some (er', es')) (Some True)"
  shows "dr = dr'"
proof -
  from assms have
    "str_nat pr @ CHR ''-'' # (''of-'' @ str_nat ps @ ''_dp-'' @ str_nat dr @ ''-of-'' @ str_nat ds
        @ ''_tp-'' @ str_nat tr @ ''-of-'' @ str_nat ts @ ''_exp-'' @ str_nat er @ ''-of-'' @ str_nat es @ ''.pt'')
     = str_nat pr' @ CHR ''-'' # (''of-'' @ str_nat ps' @ ''_dp-'' @ str_nat dr' @ ''-of-'' @ str_nat ds'
        @ ''_tp-'' @ str_nat tr' @ ''-of-'' @ str_nat ts' @ ''_exp-'' @ str_nat er' @ ''-of-'' @ str_nat es' @ ''.pt'')"
    by (simp add: get_optimizer_filename_def ObjectType_OPTIMIZER_def)
  from str_nat_split_dash [OF this] have
    "str_nat ps @ CHR ''_'' # (''dp-'' @ str_nat dr @ ''-of-'' @ str_nat ds
        @ ''_tp-'' @ str_nat tr @ ''-of-'' @ str_nat ts @ ''_exp-'' @ str_nat er @ ''-of-'' @ str_nat es @ ''.pt'')
     = str_nat ps' @ CHR ''_'' # (''dp-'' @ str_nat dr' @ ''-of-'' @ str_nat ds'
        @ ''_tp-'' @ str_nat tr' @ ''-of-'' @ str_nat ts' @ ''_exp-'' @ str_nat er' @ ''-of-'' @ str_nat es' @ ''.pt'')"
    by simp
  from str_nat_split_underscore [OF this] have
    "str_nat dr @ CHR ''-'' # (''of-'' @ str_nat ds
        @ ''_tp-'' @ str_nat tr @ ''-of-'' @ str_nat ts @ ''_exp-'' @ str_nat er @ ''-of-'' @ str_nat es @ ''.pt'')
     = str_nat dr' @ CHR ''-'' # (''of-'' @ str_nat ds'
        @ ''_tp-'' @ str_nat tr' @ ''-of-'' @ str_nat ts' @ ''_exp-'' @ str_nat er' @ ''-of-'' @ str_nat es' @ ''.pt'')"
    by simp
  from str_nat_split_dash [OF this] show ?thesis by simp
qed

text \<open>What the operations of \<^verbatim>\<open>save_optimizer\<close> leave in the file system.\<close>

lemma path_in_prefixes: "p \<noteq> [] \<Longrightarrow> p \<in> set (path_prefixes p)"
  by (induction p rule: path_prefixes.induct) auto

lemma dirs_apply_ops: "d \<in> dirs fs \<Longrightarrow> d \<in> dirs (apply_ops fs ops)"
proof (induction ops arbitrary: fs)
  case Nil
  then show ?case by (simp add: apply_ops_def)
next
  case (Cons op ops)
  have "d \<in> dirs (apply_op fs op)" using Cons.prems by (cases op) simp_all
  from Cons.IH [OF this] show ?case by (simp add: apply_ops_def)
qed

lemma dirs_after_mkdir: "p \<noteq> [] \<Longrightarrow> p \<in> dirs (apply_ops fs (Mkdir p # ops))"
  using dirs_apply_ops [of p "apply_op fs (Mkdir p)" ops] path_in_prefixes [of p]
  by (simp add: apply_ops_def)

lemma file_after_write: "map_of (files (apply_ops fs (ops @ [Write p f]))) p = Some f"
  by (simp add: apply_ops_def update_conv')

lemma save_optimizer_ops_proceeds:
  assumes "world_pg_rank pc = 0 \<and> isinstance optimizer ZeroDistributedOptimizer
             \<longrightarrow> param_name_to_dp_rank_offsets optimizer \<noteq> None"
    and "inherit_from optimizer ZeroDistributedOptimizer \<or> dp_pg_rank pc = 0"
    and "save_filename optimizer pc = Inr name"
  shows "\<exists>ops2. save_optimizer_ops optimizer pc root
           = (Mkdir (root @ [''optimizer'']) # ops2
                @ [Write (root @ [''optimizer'', name]) (ShardFile (state_dict_of optimizer))], None)"
proof -
  have config: "world_pg_rank pc = 0 \<Longrightarrow> \<exists>c. optimizer_config optimizer pc = Inr c"
    using assms(1) by (auto simp: optimizer_config_def Let_def split: option.splits)
  show ?thesis
    using assms(2,3) config by (auto simp: save_optimizer_ops_def Let_def)
qed

lemma save_optimizer_with_table:
  assumes "world_pg_rank pc = 0 \<and> isinstance optimizer ZeroDistributedOptimizer
             \<longrightarrow> param_name_to_dp_rank_offsets optimizer \<noteq> None"
  shows "snd (save_optimizer optimizer pc root fs) = None
   \<and> (list_ex is_shard_write (fst (save_optimizer_ops optimizer pc root))
        \<longleftrightarrow> inherit_from optimizer ZeroDistributedOptimizer \<or> dp_pg_rank pc = 0)
   \<and> (\<not> inherit_from optimizer ZeroDistributedOptimizer \<and> 0 < dp_pg_rank pc
        \<longrightarrow> save_optimizer optimizer pc root fs = (fs, None))
   \<and> (inherit_from optimizer ZeroDistributedOptimizer \<or> dp_pg_rank pc = 0
        \<longrightarrow> (\<exists>name. save_filename optimizer pc = Inr name
               \<and> root @ [''optimizer''] \<in> dirs (fst (save_optimizer optimizer pc root fs))
               \<and> map_of (files (fst (save_optimizer optimizer pc root fs))) (root @ [''optimizer'', name])
                   = Some (ShardFile (state_dict_of optimizer))))
   \<and> (inherit_from optimizer ZeroDistributedOptimizer
        \<longrightarrow> save_filename optimizer pc
              = Inr (ObjectType_OPTIMIZER @ ''_pp-'' @ str_nat (pp_pg_rank pc) @ ''-of-'' @ str_nat (pp_pg_size pc)
                       @ ''_dp-'' @ str_nat (dp_pg_rank pc) @ ''-of-'' @ str_nat (dp_pg_size pc)
                       @ ''_tp-'' @ str_nat (tp_pg_rank pc) @ ''-of-'' @ str_nat (tp_pg_size pc)
                       @ ''_exp-'' @ str_nat (expert_pg_rank pc) @ ''-of-'' @ str_nat (expert_pg_size pc)
                       @ ''.pt''))
   \<and> (inherit_from optimizer ZeroDistributedOptimizer \<and> save_filename optimizer pc = save_filename optimizer pc'
        \<longrightarrow> dp_pg_rank pc = dp_pg_rank pc')"
proof -
  obtain name where name: "save_filename optimizer pc = Inr name"
    using save_filename_total [of optimizer pc] by blast
  have proceeds: "inherit_from optimizer ZeroDistributedOptimizer \<or> dp_pg_rank pc = 0 \<Longrightarrow>
      \<exists>ops2. save_optimizer_ops optimizer pc root
           = (Mkdir (root @ [''optimizer'']) # ops2
                @ [Write (root @ [''optimizer'', name]) (ShardFile (state_dict_of optimizer))], None)"
    using save_optimizer_ops_proceeds [OF assms _ name] by blast
  have returns: "\<not> (inherit_from optimizer ZeroDistributedOptimizer \<or> dp_pg_rank pc = 0) \<Longrightarrow>
      save_optimizer_ops optimizer pc root = ([], None)"
    by (simp add: save_optimizer_ops_def)
  have no_error: "snd (save_optimizer optimizer pc root fs) = None"
  proof (cases "inherit_from optimizer ZeroDistributedOptimizer \<or> dp_pg_rank pc = 0")
    case True
    from proceeds [OF True] show ?thesis by (auto simp: save_optimizer_def)
  next
    case False
    from returns [OF False] show ?thesis by (simp add: save_optimizer_def)
  qed
  have iff: "list_ex is_shard_write (fst (save_optimizer_ops optimizer pc root))
               \<longleftrightarrow> inherit_from optimizer ZeroDistributedOptimizer \<or> dp_pg_rank pc = 0"
  proof (cases "inherit_from optimizer ZeroDistributedOptimizer \<or> dp_pg_rank pc = 0")
    case True
    from proceeds [OF True] show ?thesis using True by (auto simp: is_shard_write_def)
  next
    case False
    from returns [OF False] show ?thesis using False by simp
  qed
  have early: "\<not> inherit_from optimizer ZeroDistributedOptimizer \<and> 0 < dp_pg_rank pc
                 \<longrightarrow> save_optimizer optimizer pc root fs = (fs, None)"
    by (simp add: save_optimizer_def save_optimizer_ops_def apply_ops_def)
  have written: "inherit_from optimizer ZeroDistributedOptimizer \<or> dp_pg_rank pc = 0
        \<longrightarrow> (\<exists>name. save_filename optimizer pc = Inr name
               \<and> root @ [''optimizer''] \<in> dirs (fst (save_optimizer optimizer pc root fs))
               \<and> map_of (files (fst (save_optimizer optimizer pc root fs))) (root @ [''optimizer'', name])
                   = Some (ShardFile (state_dict_of optimizer)))"
  proof
    assume "inherit_from optimizer ZeroDistributedOptimizer \<or> dp_pg_rank pc = 0"
    from proceeds [OF this] obtain ops2 where ops: "save_optimizer_ops optimizer pc root
           = (Mkdir (root @ [''optimizer'']) # ops2
                @ [Write (root @ [''optimizer'', name]) (ShardFile (state_dict_of optimizer))], None)"
      by blast
    have "root @ [''optimizer''] \<in> dirs (fst (save_optimizer optimizer pc root fs))"
      using ops dirs_after_mkdir [of "root @ [''optimizer'']" fs] by (simp add: save_optimizer_def)
    moreover have "map_of (files (fst (save_optimizer optimizer pc root fs))) (root @ [''optimizer'', name])
                   = Some (ShardFile (state_dict_of optimizer))"
      using ops file_after_write [of fs "Mkdir (root @ [''optimizer'']) # ops2"]
      by (simp add: save_optimizer_def)
    ultimately show "\<exists>name. save_filename optimizer pc = Inr name
               \<and> root @ [''optimizer''] \<in> dirs (fst (save_optimizer optimizer pc root fs))
               \<and> map_of (files (fst (save_optimizer optimizer pc root fs))) (root @ [''optimizer'', name])
                   = Some (ShardFile (state_dict_of optimizer))"
      using name by blast
  qed
  have zero_name: "inherit_from optimizer ZeroDistributedOptimizer
        \<longrightarrow> save_filename optimizer pc
              = Inr (ObjectType_OPTIMIZER @ ''_pp-'' @ str_nat (pp_pg_rank pc) @ ''-of-'' @ str_nat (pp_pg_size pc)
                       @ ''_dp-'' @ str_nat (dp_pg_rank pc) @ ''-of-'' @ str_nat (dp_pg_size pc)
                       @ ''_tp-'' @ str_nat (tp_pg_rank pc) @ ''-of-'' @ str_nat (tp_pg_size pc)
                       @ ''_exp-'' @ str_nat (expert_pg_rank pc) @ ''-of-'' @ str_nat (expert_pg_size pc)
                       @ ''.pt'')"
    by (simp add: save_filename_def get_optimizer_filename_def)
  have own: "inherit_from optimizer ZeroDistributedOptimizer
               \<and> save_filename optimizer pc = save_filename optimizer pc'
        \<longrightarrow> dp_pg_rank pc = dp_pg_rank pc'"
    using zero_filename_dp_rank by (auto simp: save_filename_def)
  from no_error iff early written zero_name own show ?thesis by blast
qed

lemma isinstance_inherit_from: "isinstance w c \<Longrightarrow> inherit_from w c"
  by (cases w) (simp add: isinstance_def)

lemma save_optimizer_without_table:
  assumes "world_pg_rank pc = 0" "isinstance optimizer ZeroDistributedOptimizer"
    and "param_name_to_dp_rank_offsets optimizer = None"
  shows "save_optimizer_ops optimizer pc root
           = ([Mkdir (root @ [''optimizer'']), Open (root @ [''optimizer'', OPTIMIZER_CONFIG_FILE_NAME])],
              Some AssertionError)"
  using assms isinstance_inherit_from [OF assms(2)]
  by (simp add: save_optimizer_ops_def optimizer_config_def Let_def)

subsection \<open>The claims\<close>

text \<open>
  C1, at two round trips under one topology. A ZeRO-1 optimizer saved with tp = pp = 1
  and dp = 2: the process of data-parallel rank 1 saved the moments [3, 4] and [7, 8],
  and loading on that rank gives it the moments [1, 2] and [5, 6] of rank 0, the file
  line 379 names from the pipeline rank. An optimizer that is not ZeRO, saved and loaded
  by a single process: the optimizer comes back as it was before the load, as line 487
  is only reached for a ZeroDistributedOptimizer.
\<close>

theorem round_trip_loses_saved_state:
  "state_dict_of (zero_optimizer halves [(''w'', [4])] (adam_state [3, 4] [7, 8] None))
     = adam_state [3, 4] [7, 8] None
   \<and> load_optimizer no_externals (zero_optimizer halves [(''w'', [4])] (adam_state [0, 0] [0, 0] None))
       (ranks (0, 1) (1, 2) 1) [''ckpt''] None None None zero_dp2_checkpoint
     = Inr (zero_optimizer halves [(''w'', [4])] (adam_state [1, 2] [5, 6] None))
   \<and> load_optimizer no_externals (named_optimizer (adam_state [0, 0] [0, 0] None))
       (ranks (0, 1) (0, 1) 0) [''ckpt''] None None None plain_checkpoint
     = Inr (named_optimizer (adam_state [0, 0] [0, 0] None))"
  by code_simp

theorem round_trip_loses_saved_state_witness:
  "map_sum id state_dict_of
     (load_optimizer no_externals (zero_optimizer halves [(''w'', [4])] (adam_state [0, 0] [0, 0] None))
        (ranks (0, 1) (1, 2) 1) [''ckpt''] None None None zero_dp2_checkpoint)
     \<noteq> Inr (adam_state [3, 4] [7, 8] None)
   \<and> map_sum id state_dict_of
       (load_optimizer no_externals (named_optimizer (adam_state [0, 0] [0, 0] None))
          (ranks (0, 1) (0, 1) 0) [''ckpt''] None None None plain_checkpoint)
     \<noteq> Inr (adam_state [1, 2] [5, 6] None)"
  using round_trip_loses_saved_state
  by (simp add: zero_optimizer_def named_optimizer_def adam_def adam_state_def cpu_tensor_def)

text \<open>
  C2, at the scenario of the spec scaled to a parameter of four elements: a ZeRO-1
  checkpoint of four data-parallel ranks, each holding one element, loaded by rank 0 of
  two, whose table gives it the elements [0, 2). The state tensors become the slices
  [1, 2] and [5, 6] of the merged buffers, and the load then ends in a KeyError: line 481
  reads the offsets of the gradient accumulator under \<^verbatim>\<open>dp_rank\<close>, which the loop of line
  476 left at 3, the last rank of the checkpoint, and the table of two ranks has no such
  key.
\<close>

theorem dp_reshard_accumulator_key_error:
  "direct_load (zero_optimizer halves [(''w'', [4])] (adam_state [0, 0] [0, 0] (Some [0, 0])))
       (ranks (0, 1) (0, 2) 0) [''ckpt'', ''optimizer''] None
       \<lparr>optimizer_type = ''ZeroDistributedOptimizer'', tp_size = 1, dp_size = 4, pp_size = 1,
        expert_parallel_size = 1, configs_param_name_to_dp_rank_offsets = Some quarters,
        configs_orig_param_shapes = Some [(''w'', [4])]\<rparr> zero_dp4_checkpoint
     = Inr (adam_state [1] [5] (Some [9]))
   \<and> dp_reshard shard_ranks (zero_optimizer halves [(''w'', [4])] (adam_state [0, 0] [0, 0] (Some [0, 0])))
       (ranks (0, 1) (0, 2) 0) [''ckpt'', ''optimizer''] None
       \<lparr>optimizer_type = ''ZeroDistributedOptimizer'', tp_size = 1, dp_size = 4, pp_size = 1,
        expert_parallel_size = 1, configs_param_name_to_dp_rank_offsets = Some quarters,
        configs_orig_param_shapes = Some [(''w'', [4])]\<rparr> zero_dp4_checkpoint
       (glob (listdir zero_dp4_checkpoint [''ckpt'', ''optimizer'']) (zero1_shard_pattern 1 4 1 1))
       (adam_state [1] [5] (Some [9]))
     = (adam_state [1, 2] [5, 6] (Some [9]), Some KeyError)
   \<and> last_dp_rank quarters = Some 3
   \<and> optimizer_offsets (zero_optimizer halves [(''w'', [4])] (adam_state [0, 0] [0, 0] (Some [0, 0]))) ''w'' 3
     = Inl KeyError
   \<and> load_optimizer shard_externals (zero_optimizer halves [(''w'', [4])] (adam_state [0, 0] [0, 0] (Some [0, 0])))
       (ranks (0, 1) (0, 2) 0) [''ckpt''] None None None zero_dp4_checkpoint
     = Inl KeyError"
  by code_simp

theorem dp_reshard_accumulator_key_error_witness:
  "map_sum id (\<lambda>loaded. gradient_accumulator (state_dict_of loaded))
     (load_optimizer shard_externals (zero_optimizer halves [(''w'', [4])] (adam_state [0, 0] [0, 0] (Some [0, 0])))
        (ranks (0, 1) (0, 2) 0) [''ckpt''] None None None zero_dp4_checkpoint)
     \<noteq> Inr (Some [(''w'', cpu_tensor [9, 10])])"
  using dp_reshard_accumulator_key_error by simp

text \<open>
  C3, amended. The reshard makes no check of the coverage and has no error for it: an
  element index of a parameter that no offset range of the manifest covers still holds,
  in every merged state buffer the merge returns, the zero the buffer was created with.
\<close>

theorem uncovered_elements_stay_zero:
  assumes "merge_optim_states sd (create_merged_optim_states shapes map_location) sharded table tp state_keys
             = Inr merged"
    and "\<forall>(p_name, dp, offset) \<in> set (table_entries table). p_name = p \<longrightarrow> \<not> (fst offset \<le> i \<and> i < snd offset)"
    and "map_of merged p = Some entry" and "map_of entry key = Some t" and "i < numel t"
  shows "data t ! i = 0"
proof -
  have "element_at merged p key i = Some (data t ! i)"
    using assms(3-5) by (simp add: element_at_def)
  then have "element_at (create_merged_optim_states shapes map_location) p key i = Some (data t ! i)"
    using merge_optim_states_outside [OF assms(1,2)] by simp
  then show ?thesis by (rule element_at_created)
qed

theorem uncovered_elements_stay_zero_witness:
  "merge_optim_states (adam_state [1, 2] [5, 6] (Some [9, 10])) (create_merged_optim_states [(''w'', [4])] None)
       [((0, 0), state (adam_state [1, 2] [5, 6] (Some [9, 10])))] first_half_only 0 [''exp_avg'', ''exp_avg_sq'']
     = Inr [(''w'', [(''exp_avg'', cpu_tensor [1, 2, 0, 0]), (''exp_avg_sq'', cpu_tensor [5, 6, 0, 0])])]
   \<and> table_entries first_half_only = [(''w'', 0, (0, 2))]
   \<and> data (cpu_tensor [1, 2, 0, 0]) ! 2 = 0"
proof -
  have run: "merge_optim_states (adam_state [1, 2] [5, 6] (Some [9, 10]))
       (create_merged_optim_states [(''w'', [4])] None)
       [((0, 0), state (adam_state [1, 2] [5, 6] (Some [9, 10])))] first_half_only 0 [''exp_avg'', ''exp_avg_sq'']
     = Inr [(''w'', [(''exp_avg'', cpu_tensor [1, 2, 0, 0]), (''exp_avg_sq'', cpu_tensor [5, 6, 0, 0])])]"
    by code_simp
  have entries: "table_entries first_half_only = [(''w'', 0, (0, 2))]"
    by code_simp
  have gap: "\<forall>(p_name, dp, offset) \<in> set (table_entries first_half_only).
               p_name = ''w'' \<longrightarrow> \<not> (fst offset \<le> (2 :: nat) \<and> 2 < snd offset)"
    by (simp add: entries)
  have "data (cpu_tensor [1, 2, 0, 0]) ! 2 = 0"
    by (rule uncovered_elements_stay_zero [OF run gap, of "[(''exp_avg'', cpu_tensor [1, 2, 0, 0]),
          (''exp_avg_sq'', cpu_tensor [5, 6, 0, 0])]" "''exp_avg''"])
       (simp_all add: numel_def cpu_tensor_def)
  with run entries show ?thesis by blast
qed

text \<open>
  C3 as stated fails: the manifest of this checkpoint gives the elements [0, 2) of \<open>w\<close> to
  its only rank and the elements 2 and 3 to none. Loading it on data-parallel rank 1 of
  two, whose range is [2, 4), returns without an exception, and the state tensors the
  optimizer gets are the zeros the merged buffers were created with.
\<close>

theorem uncovered_elements_load_as_zeros:
  "map_sum id state_dict_of
     (load_optimizer shard_externals (zero_optimizer halves [(''w'', [4])] (adam_state [0, 0] [0, 0] (Some [0, 0])))
        (ranks (0, 1) (1, 2) 1) [''ckpt''] None None None gap_checkpoint)
     = Inr (adam_state [0, 0] [0, 0] (Some [9, 10]))"
  by code_simp

text \<open>
  C4, at a checkpoint of an optimizer that is not ZeRO, saved by the two tensor-parallel
  ranks of a run with tp = 2, pp = 1 and one expert group. The directory holds the
  manifest and the two shard files \<^verbatim>\<open>get_optimizer_filename\<close> named; the pattern of line
  235, built from the sizes of the manifest, matches neither, so the load under another
  tensor-parallel size reads no shard. The pattern of lines 224 and 429 does match the
  two files of the ZeRO-1 checkpoint.
\<close>

theorem zero0_pattern_misses_saved_shards:
  "listdir tp2_checkpoint [''ckpt'', ''optimizer'']
     = [''optimizer_config.json'', ''optimizer_pp-0-of-1_tp-0-of-2_exp-0-of-1.pt'',
        ''optimizer_pp-0-of-1_tp-1-of-2_exp-0-of-1.pt'']
   \<and> map_sum id (\<lambda>c. (optimizer_type c, pp_size c, tp_size c, expert_parallel_size c))
        (read_config tp2_checkpoint [''ckpt'', ''optimizer'', ''optimizer_config.json''])
      = Inr (''NamedOptimizer'', 1, 2, 1)
   \<and> zero0_shard_pattern 1 2 = ''optimizer_pp-*-of-1_tp-*-of-2.pt''
   \<and> glob (listdir tp2_checkpoint [''ckpt'', ''optimizer'']) (zero0_shard_pattern 1 2) = []
   \<and> glob (listdir zero_dp2_checkpoint [''ckpt'', ''optimizer'']) (zero1_shard_pattern 1 2 1 1)
      = [''optimizer_pp-0-of-1_dp-0-of-2_tp-0-of-1_exp-0-of-1.pt'',
         ''optimizer_pp-0-of-1_dp-1-of-2_tp-0-of-1_exp-0-of-1.pt'']"
  by code_simp

text \<open>
  C5, at the ZeRO-1 checkpoint of tp = 1 and dp = 2 loaded with tp = 2 and dp = 1. On
  tensor-parallel rank 0 the state tensors of the dictionary are replaced by the merged
  buffers before the assertion of line 470 fails; on tensor-parallel rank 1 no shard is
  keyed by that rank and the merge ends in a KeyError.
\<close>

theorem tp_assertion_after_state_replaced:
  "read_config zero_dp2_checkpoint [''ckpt'', ''optimizer'', ''optimizer_config.json''] = Inr zero_dp2_config
   \<and> glob (listdir zero_dp2_checkpoint [''ckpt'', ''optimizer'']) (zero1_shard_pattern 1 2 1 1)
     = zero_dp2_shard_paths
   \<and> dp_reshard shard_ranks (zero_optimizer whole [(''w'', [4])] (adam_state [0, 0] [0, 0] None))
       (ranks (0, 2) (0, 1) 0) [''ckpt'', ''optimizer''] None zero_dp2_config zero_dp2_checkpoint
       zero_dp2_shard_paths (adam_state [1, 2] [5, 6] None)
     = (adam_state [1, 2, 3, 4] [5, 6, 7, 8] None, Some AssertionError)
   \<and> dp_reshard shard_ranks (zero_optimizer whole [(''w'', [4])] (adam_state [0, 0] [0, 0] None))
       (ranks (1, 2) (0, 1) 1) [''ckpt'', ''optimizer''] None zero_dp2_config zero_dp2_checkpoint
       zero_dp2_shard_paths (adam_state [1, 2] [5, 6] None)
     = (adam_state [1, 2] [5, 6] None, Some KeyError)"
  by code_simp

text \<open>
  C6, at a model whose parameters are \<open>lm_head\<close>, tied to \<open>embed\<close>, and then \<open>embed\<close>
  itself. \<open>lm_head\<close> is loaded under the name \<open>embed\<close>; \<open>embed\<close>, whose name is its own
  canonical name, is never tested against the names already loaded (line 277), so it is
  loaded again: the names map gives \<open>embed\<close> to the indices 0 and 1, and both state
  entries are populated. In the other order the second occurrence is skipped.
\<close>

theorem tied_parameter_loaded_twice:
  "map_sum id (\<lambda>sd. (names sd, map fst (state sd)))
     (restore_from_shards shard_externals (named_optimizer (adam_state [0, 0] [0, 0] None)) tp2_config []
        [(''lm_head'', Some tied_to_embed), (''embed'', Some tied_to_embed)] embed_shards)
     = Inr (Some [(0, ''embed''), (1, ''embed'')], [0, 1])
   \<and> map_sum id (\<lambda>sd. (names sd, map fst (state sd)))
       (restore_from_shards shard_externals (named_optimizer (adam_state [0, 0] [0, 0] None)) tp2_config []
          [(''embed'', Some tied_to_embed), (''lm_head'', Some tied_to_embed)] embed_shards)
     = Inr (Some [(0, ''embed'')], [0])"
  by code_simp

text \<open>
  C7, amended. For a parameter the loop does not skip, \<^verbatim>\<open>load_optimizer\<close> compares no
  steps: once the shards were read, it looks the parameter up in the shard the loop over
  the shards visited last, and the step held there for it, if any, is the step stored for
  the parameter, whatever the other shards hold.
\<close>

theorem step_of_last_visited_shard:
  assumes "load_param ext cfg md shards state_names (new_state, nms, v) (param_index, param_name, Some param)
             = Inr (st', nms', v')"
    and "base_name = (if is_tied param then tied_name param else param_name)"
    and "\<not> (param_name \<noteq> base_name \<and> base_name \<in> set (map snd nms))"
  shows "shards \<noteq> [] \<and>
   (\<exists>idx os. find_optim_index_from_param_name ext base_name shards (fst (fst (last shards))) = Some idx
      \<and> map_of (state (snd (last shards))) idx = Some os
      \<and> (\<forall>step. map_of os ''step'' = Some step
            \<longrightarrow> and_then (lookup st' param_index) (\<lambda>e. lookup e ''step'') = Inr step))"
proof -
  from assms obtain st1 where "restore_step ext shards param_index base_name st1 = Inr st'"
    by (auto simp: load_param_def Let_def and_then_Inr_iff split: if_splits prod.splits)
  from restore_step_Inr [OF this] show ?thesis
    by (auto simp: lookup_set_entry)
qed

theorem step_of_last_visited_shard_witness:
  "load_param shard_externals tp2_config [] two_step_shards [''exp_avg'', ''exp_avg_sq''] ([], [], None)
       (0, ''w'', Some replicated_parameter)
     = Inr ([(0, [(''exp_avg'', cpu_tensor [3, 4]), (''exp_avg_sq'', cpu_tensor [7, 8]),
                  (''step'', cpu_tensor [7])])], [(0, ''w'')], Some ''exp_avg_sq'')
   \<and> map_of (state (snd (last two_step_shards))) 0
       = Some [(''exp_avg'', cpu_tensor [3, 4]), (''exp_avg_sq'', cpu_tensor [7, 8]), (''step'', cpu_tensor [7])]
   \<and> and_then
        (lookup [(0 :: nat, [(''exp_avg'', cpu_tensor [3, 4]), (''exp_avg_sq'', cpu_tensor [7, 8]),
                      (''step'', cpu_tensor [7])])] 0)
        (\<lambda>e. lookup e ''step'')
      = Inr (cpu_tensor [7])"
proof -
  have run: "load_param shard_externals tp2_config [] two_step_shards [''exp_avg'', ''exp_avg_sq''] ([], [], None)
       (0, ''w'', Some replicated_parameter)
     = Inr ([(0, [(''exp_avg'', cpu_tensor [3, 4]), (''exp_avg_sq'', cpu_tensor [7, 8]),
                  (''step'', cpu_tensor [7])])], [(0, ''w'')], Some ''exp_avg_sq'')"
    by code_simp
  have last_shard: "map_of (state (snd (last two_step_shards))) 0
       = Some [(''exp_avg'', cpu_tensor [3, 4]), (''exp_avg_sq'', cpu_tensor [7, 8]), (''step'', cpu_tensor [7])]"
    by code_simp
  have found: "find_optim_index_from_param_name shard_externals ''w'' two_step_shards
                 (fst (fst (last two_step_shards))) = Some 0"
    by code_simp
  from step_of_last_visited_shard [OF run refl] last_shard found
  have "and_then
        (lookup [(0 :: nat, [(''exp_avg'', cpu_tensor [3, 4]), (''exp_avg_sq'', cpu_tensor [7, 8]),
                      (''step'', cpu_tensor [7])])] 0)
        (\<lambda>e. lookup e ''step'')
      = Inr (cpu_tensor [7])"
    by (auto simp: replicated_parameter_def)
  with run last_shard show ?thesis by blast
qed

text \<open>
  C7 as stated fails: two shards that hold the parameter with the steps 5 and 7 are
  restored without any exception, and the step stored is 7, the one of the shard visited
  last.
\<close>

theorem differing_steps_are_not_refused:
  "ckp_state_tensor (snd (two_step_shards ! 0)) 0 ''step'' = Inr (cpu_tensor [5])
   \<and> ckp_state_tensor (snd (two_step_shards ! 1)) 0 ''step'' = Inr (cpu_tensor [7])
   \<and> map_sum id state
       (restore_from_shards shard_externals (named_optimizer (adam_state [0, 0] [0, 0] None)) tp2_config []
          [(''w'', Some replicated_parameter)] two_step_shards)
     = Inr [(0, [(''exp_avg'', cpu_tensor [3, 4]), (''exp_avg_sq'', cpu_tensor [7, 8]),
                 (''step'', cpu_tensor [7])])]"
  by code_simp

text \<open>
  C8, amended. Provided the assertion of line 114 holds where it is reached (a
  ZeroDistributedOptimizer saved by the process of world rank 0 has an offset table),
  \<^verbatim>\<open>save_optimizer\<close> returns without an exception, and it writes a shard file exactly when
  \<^verbatim>\<open>inherit_from\<close> finds a ZeroDistributedOptimizer or the data-parallel rank is 0. A
  process of an optimizer that is not ZeRO with data-parallel rank above 0 leaves the
  file system as it was. In the other case the directory \<^verbatim>\<open>optimizer\<close> exists afterwards
  and the file named by \<^verbatim>\<open>get_optimizer_filename\<close> holds the state dict of the optimizer;
  under ZeRO that name carries the data-parallel rank, so that two processes whose file
  names are equal have the same data-parallel rank. When the assertion fails,
  \<^verbatim>\<open>save_optimizer\<close> has created the directory and opened the manifest, raises the
  AssertionError and writes no other file.
\<close>

theorem save_optimizer_writes_shard_iff:
  "((world_pg_rank pc = 0 \<and> isinstance optimizer ZeroDistributedOptimizer
       \<longrightarrow> param_name_to_dp_rank_offsets optimizer \<noteq> None)
    \<longrightarrow> snd (save_optimizer optimizer pc root fs) = None
     \<and> (list_ex is_shard_write (fst (save_optimizer_ops optimizer pc root))
          \<longleftrightarrow> inherit_from optimizer ZeroDistributedOptimizer \<or> dp_pg_rank pc = 0)
     \<and> (\<not> inherit_from optimizer ZeroDistributedOptimizer \<and> 0 < dp_pg_rank pc
          \<longrightarrow> save_optimizer optimizer pc root fs = (fs, None))
     \<and> (inherit_from optimizer ZeroDistributedOptimizer \<or> dp_pg_rank pc = 0
          \<longrightarrow> (\<exists>name. save_filename optimizer pc = Inr name
                 \<and> root @ [''optimizer''] \<in> dirs (fst (save_optimizer optimizer pc root fs))
                 \<and> map_of (files (fst (save_optimizer optimizer pc root fs))) (root @ [''optimizer'', name])
                     = Some (ShardFile (state_dict_of optimizer))))
     \<and> (inherit_from optimizer ZeroDistributedOptimizer
          \<longrightarrow> save_filename optimizer pc
                = Inr (ObjectType_OPTIMIZER @ ''_pp-'' @ str_nat (pp_pg_rank pc) @ ''-of-'' @ str_nat (pp_pg_size pc)
                         @ ''_dp-'' @ str_nat (dp_pg_rank pc) @ ''-of-'' @ str_nat (dp_pg_size pc)
                         @ ''_tp-'' @ str_nat (tp_pg_rank pc) @ ''-of-'' @ str_nat (tp_pg_size pc)
                         @ ''_exp-'' @ str_nat (expert_pg_rank pc) @ ''-of-'' @ str_nat (expert_pg_size pc)
                         @ ''.pt''))
     \<and> (inherit_from optimizer ZeroDistributedOptimizer \<and> save_filename optimizer pc = save_filename optimizer pc'
          \<longrightarrow> dp_pg_rank pc = dp_pg_rank pc'))
   \<and> (world_pg_rank pc = 0 \<and> isinstance optimizer ZeroDistributedOptimizer
         \<and> param_name_to_dp_rank_offsets optimizer = None
       \<longrightarrow> save_optimizer_ops optimizer pc root
             = ([Mkdir (root @ [''optimizer'']), Open (root @ [''optimizer'', OPTIMIZER_CONFIG_FILE_NAME])],
                Some AssertionError)
          \<and> snd (save_optimizer optimizer pc root fs) = Some AssertionError
          \<and> files (fst (save_optimizer optimizer pc root fs))
              = AList.update (root @ [''optimizer'', OPTIMIZER_CONFIG_FILE_NAME]) EmptyFile (files fs))"
proof (rule conjI; rule impI)
  assume "world_pg_rank pc = 0 \<and> isinstance optimizer ZeroDistributedOptimizer
            \<longrightarrow> param_name_to_dp_rank_offsets optimizer \<noteq> None"
  from save_optimizer_with_table [OF this, of root fs pc']
  show "snd (save_optimizer optimizer pc root fs) = None
     \<and> (list_ex is_shard_write (fst (save_optimizer_ops optimizer pc root))
          \<longleftrightarrow> inherit_from optimizer ZeroDistributedOptimizer \<or> dp_pg_rank pc = 0)
     \<and> (\<not> inherit_from optimizer ZeroDistributedOptimizer \<and> 0 < dp_pg_rank pc
          \<longrightarrow> save_optimizer optimizer pc root fs = (fs, None))
     \<and> (inherit_from optimizer ZeroDistributedOptimizer \<or> dp_pg_rank pc = 0
          \<longrightarrow> (\<exists>name. save_filename optimizer pc = Inr name
                 \<and> root @ [''optimizer''] \<in> dirs (fst (save_optimizer optimizer pc root fs))
                 \<and> map_of (files (fst (save_optimizer optimizer pc root fs))) (root @ [''optimizer'', name])
                     = Some (ShardFile (state_dict_of optimizer))))
     \<and> (inherit_from optimizer ZeroDistributedOptimizer
          \<longrightarrow> save_filename optimizer pc
                = Inr (ObjectType_OPTIMIZER @ ''_pp-'' @ str_nat (pp_pg_rank pc) @ ''-of-'' @ str_nat (pp_pg_size pc)
                         @ ''_dp-'' @ str_nat (dp_pg_rank pc) @ ''-of-'' @ str_nat (dp_pg_size pc)
                         @ ''_tp-'' @ str_nat (tp_pg_rank pc) @ ''-of-'' @ str_nat (tp_pg_size pc)
                         @ ''_exp-'' @ str_nat (expert_pg_rank pc) @ ''-of-'' @ str_nat (expert_pg_size pc)
                         @ ''.pt''))
     \<and> (inherit_from optimizer ZeroDistributedOptimizer \<and> save_filename optimizer pc = save_filename optimizer pc'
          \<longrightarrow> dp_pg_rank pc = dp_pg_rank pc')" .
next
  assume fails: "world_pg_rank pc = 0 \<and> isinstance optimizer ZeroDistributedOptimizer
                   \<and> param_name_to_dp_rank_offsets optimizer = None"
  then have ops: "save_optimizer_ops optimizer pc root
             = ([Mkdir (root @ [''optimizer'']), Open (root @ [''optimizer'', OPTIMIZER_CONFIG_FILE_NAME])],
                Some AssertionError)"
    using save_optimizer_without_table [of pc optimizer root] by blast
  show "save_optimizer_ops optimizer pc root
             = ([Mkdir (root @ [''optimizer'']), Open (root @ [''optimizer'', OPTIMIZER_CONFIG_FILE_NAME])],
                Some AssertionError)
          \<and> snd (save_optimizer optimizer pc root fs) = Some AssertionError
          \<and> files (fst (save_optimizer optimizer pc root fs))
              = AList.update (root @ [''optimizer'', OPTIMIZER_CONFIG_FILE_NAME]) EmptyFile (files fs)"
    using ops by (simp add: save_optimizer_def apply_ops_def)
qed

theorem save_optimizer_writes_shard_iff_witness:
  "param_name_to_dp_rank_offsets (zero_optimizer halves [(''w'', [4])] (adam_state [3, 4] [7, 8] None)) \<noteq> None
   \<and> inherit_from (zero_optimizer halves [(''w'', [4])] (adam_state [3, 4] [7, 8] None)) ZeroDistributedOptimizer
   \<and> snd (save_optimizer (zero_optimizer halves [(''w'', [4])] (adam_state [3, 4] [7, 8] None))
            (ranks (0, 1) (1, 2) 1) [''ckpt''] empty_fs) = None
   \<and> [''ckpt'', ''optimizer'']
       \<in> dirs (fst (save_optimizer (zero_optimizer halves [(''w'', [4])] (adam_state [3, 4] [7, 8] None))
                      (ranks (0, 1) (1, 2) 1) [''ckpt''] empty_fs))
   \<and> map_of (files (fst (save_optimizer (zero_optimizer halves [(''w'', [4])] (adam_state [3, 4] [7, 8] None))
                           (ranks (0, 1) (1, 2) 1) [''ckpt''] empty_fs)))
         [''ckpt'', ''optimizer'', ''optimizer_pp-0-of-1_dp-1-of-2_tp-0-of-1_exp-0-of-1.pt'']
       = Some (ShardFile (adam_state [3, 4] [7, 8] None))
   \<and> save_filename (zero_optimizer halves [(''w'', [4])] (adam_state [3, 4] [7, 8] None)) (ranks (0, 1) (1, 2) 1)
       \<noteq> save_filename (zero_optimizer halves [(''w'', [4])] (adam_state [3, 4] [7, 8] None)) (ranks (0, 1) (0, 2) 0)
   \<and> \<not> inherit_from (named_optimizer (adam_state [1, 2] [5, 6] None)) ZeroDistributedOptimizer
   \<and> 0 < dp_pg_rank (ranks (0, 1) (1, 2) 1)
   \<and> save_optimizer (named_optimizer (adam_state [1, 2] [5, 6] None)) (ranks (0, 1) (1, 2) 1) [''ckpt''] empty_fs
       = (empty_fs, None)
   \<and> map_of (files (fst (save_optimizer (named_optimizer (adam_state [1, 2] [5, 6] None))
                           (ranks (0, 1) (0, 2) 0) [''ckpt''] empty_fs)))
         [''ckpt'', ''optimizer'', ''optimizer_pp-0-of-1_tp-0-of-1_exp-0-of-1.pt'']
       = Some (ShardFile (adam_state [1, 2] [5, 6] None))
   \<and> world_pg_rank (ranks (0, 1) (0, 1) 0) = 0
   \<and> isinstance (tableless_zero_optimizer (adam_state [1, 2] [5, 6] None)) ZeroDistributedOptimizer
   \<and> param_name_to_dp_rank_offsets (tableless_zero_optimizer (adam_state [1, 2] [5, 6] None)) = None
   \<and> snd (save_optimizer (tableless_zero_optimizer (adam_state [1, 2] [5, 6] None))
            (ranks (0, 1) (0, 1) 0) [''ckpt''] empty_fs) = Some AssertionError"
proof -
  let ?z = "zero_optimizer halves [(''w'', [4])] (adam_state [3, 4] [7, 8] None)"
  let ?n = "named_optimizer (adam_state [1, 2] [5, 6] None)"
  let ?rank1 = "ranks (0, 1) (1, 2) 1"
  let ?rank0 = "ranks (0, 1) (0, 2) 0"
  have table: "param_name_to_dp_rank_offsets ?z \<noteq> None"
    by (simp add: zero_optimizer_def)
  have zero: "inherit_from ?z ZeroDistributedOptimizer"
    by (simp add: zero_optimizer_def)
  have plain: "\<not> inherit_from ?n ZeroDistributedOptimizer" "\<not> isinstance ?n ZeroDistributedOptimizer"
    by (simp_all add: named_optimizer_def isinstance_def ZeroDistributedOptimizer_def)
  have rank: "0 < dp_pg_rank ?rank1" "dp_pg_rank ?rank0 = 0"
    by (simp_all add: ranks_def)
  have zero_name: "save_filename ?z ?rank1 = Inr ''optimizer_pp-0-of-1_dp-1-of-2_tp-0-of-1_exp-0-of-1.pt''"
    by code_simp
  have plain_name: "save_filename ?n ?rank0 = Inr ''optimizer_pp-0-of-1_tp-0-of-1_exp-0-of-1.pt''"
    by code_simp
  have states: "state_dict_of ?z = adam_state [3, 4] [7, 8] None" "state_dict_of ?n = adam_state [1, 2] [5, 6] None"
    by (simp_all add: zero_optimizer_def named_optimizer_def adam_def)
  have at_zero: "world_pg_rank ?rank1 = 0 \<and> isinstance ?z ZeroDistributedOptimizer
                   \<longrightarrow> param_name_to_dp_rank_offsets ?z \<noteq> None"
    using table by blast
  have at_plain: "world_pg_rank ?rank1 = 0 \<and> isinstance ?n ZeroDistributedOptimizer
                    \<longrightarrow> param_name_to_dp_rank_offsets ?n \<noteq> None"
      "world_pg_rank ?rank0 = 0 \<and> isinstance ?n ZeroDistributedOptimizer
                    \<longrightarrow> param_name_to_dp_rank_offsets ?n \<noteq> None"
    using plain(2) by blast+
  note z = save_optimizer_writes_shard_iff [of ?rank1 ?z "[''ckpt'']" empty_fs ?rank0,
               THEN conjunct1, THEN mp, OF at_zero]
  note n1 = save_optimizer_writes_shard_iff [of ?rank1 ?n "[''ckpt'']" empty_fs ?rank0,
               THEN conjunct1, THEN mp, OF at_plain(1)]
  note n0 = save_optimizer_writes_shard_iff [of ?rank0 ?n "[''ckpt'']" empty_fs ?rank0,
               THEN conjunct1, THEN mp, OF at_plain(2)]
  have tableless: "world_pg_rank (ranks (0, 1) (0, 1) 0) = 0
                     \<and> isinstance (tableless_zero_optimizer (adam_state [1, 2] [5, 6] None)) ZeroDistributedOptimizer
                     \<and> param_name_to_dp_rank_offsets (tableless_zero_optimizer (adam_state [1, 2] [5, 6] None)) = None"
    by (simp add: tableless_zero_optimizer_def isinstance_def ranks_def)
  note t = save_optimizer_writes_shard_iff [of "ranks (0, 1) (0, 1) 0"
               "tableless_zero_optimizer (adam_state [1, 2] [5, 6] None)" "[''ckpt'']" empty_fs ?rank0,
               THEN conjunct2, THEN mp, OF tableless]
  have t1: "snd (save_optimizer (tableless_zero_optimizer (adam_state [1, 2] [5, 6] None))
                   (ranks (0, 1) (0, 1) 0) [''ckpt''] empty_fs) = Some AssertionError"
    using t by blast
  have z1: "snd (save_optimizer ?z ?rank1 [''ckpt''] empty_fs) = None"
    using z by blast
  have "\<exists>name. save_filename ?z ?rank1 = Inr name
           \<and> [''ckpt''] @ [''optimizer''] \<in> dirs (fst (save_optimizer ?z ?rank1 [''ckpt''] empty_fs))
           \<and> map_of (files (fst (save_optimizer ?z ?rank1 [''ckpt''] empty_fs))) ([''ckpt''] @ [''optimizer'', name])
               = Some (ShardFile (state_dict_of ?z))"
    using z zero by blast
  then obtain zname where zname: "save_filename ?z ?rank1 = Inr zname"
    and zdir: "[''ckpt''] @ [''optimizer''] \<in> dirs (fst (save_optimizer ?z ?rank1 [''ckpt''] empty_fs))"
    and zfile: "map_of (files (fst (save_optimizer ?z ?rank1 [''ckpt''] empty_fs)))
                  ([''ckpt''] @ [''optimizer'', zname]) = Some (ShardFile (state_dict_of ?z))"
    by blast
  from zname zero_name have "zname = ''optimizer_pp-0-of-1_dp-1-of-2_tp-0-of-1_exp-0-of-1.pt''"
    by (simp only: sum.inject)
  with zdir zfile states
  have z2: "[''ckpt'', ''optimizer''] \<in> dirs (fst (save_optimizer ?z ?rank1 [''ckpt''] empty_fs))"
    and z3: "map_of (files (fst (save_optimizer ?z ?rank1 [''ckpt''] empty_fs)))
               [''ckpt'', ''optimizer'', ''optimizer_pp-0-of-1_dp-1-of-2_tp-0-of-1_exp-0-of-1.pt'']
             = Some (ShardFile (adam_state [3, 4] [7, 8] None))"
    by (simp_all only: append.simps)
  have z4: "save_filename ?z ?rank1 \<noteq> save_filename ?z ?rank0"
  proof
    assume "save_filename ?z ?rank1 = save_filename ?z ?rank0"
    with z zero have "dp_pg_rank ?rank1 = dp_pg_rank ?rank0" by blast
    with rank show False by simp
  qed
  have n1': "save_optimizer ?n ?rank1 [''ckpt''] empty_fs = (empty_fs, None)"
    using n1 plain(1) rank(1) by blast
  have "\<exists>name. save_filename ?n ?rank0 = Inr name
           \<and> [''ckpt''] @ [''optimizer''] \<in> dirs (fst (save_optimizer ?n ?rank0 [''ckpt''] empty_fs))
           \<and> map_of (files (fst (save_optimizer ?n ?rank0 [''ckpt''] empty_fs))) ([''ckpt''] @ [''optimizer'', name])
               = Some (ShardFile (state_dict_of ?n))"
    using n0 rank(2) by blast
  then obtain nname where nname: "save_filename ?n ?rank0 = Inr nname"
    and nfile: "map_of (files (fst (save_optimizer ?n ?rank0 [''ckpt''] empty_fs)))
                  ([''ckpt''] @ [''optimizer'', nname]) = Some (ShardFile (state_dict_of ?n))"
    by blast
  from nname plain_name have "nname = ''optimizer_pp-0-of-1_tp-0-of-1_exp-0-of-1.pt''"
    by (simp only: sum.inject)
  with nfile states
  have n0': "map_of (files (fst (save_optimizer ?n ?rank0 [''ckpt''] empty_fs)))
               [''ckpt'', ''optimizer'', ''optimizer_pp-0-of-1_tp-0-of-1_exp-0-of-1.pt'']
             = Some (ShardFile (adam_state [1, 2] [5, 6] None))"
    by (simp only: append.simps)
  from table zero z1 z2 z3 z4 plain(1) rank(1) n1' n0' tableless t1 show ?thesis by blast
qed

text \<open>
  C8 as stated fails: for a ZeroDistributedOptimizer whose offset table is None, the
  process of world rank 0 creates the directory and opens the manifest, the assertion of
  line 114 fails, and no shard file is written: the manifest, left empty, is the only
  file.
\<close>

theorem zero_without_table_writes_no_shard:
  "inherit_from (tableless_zero_optimizer (adam_state [1, 2] [5, 6] None)) ZeroDistributedOptimizer
   \<and> save_optimizer_ops (tableless_zero_optimizer (adam_state [1, 2] [5, 6] None)) (ranks (0, 1) (0, 1) 0) [''ckpt'']
       = ([Mkdir [''ckpt'', ''optimizer''], Open [''ckpt'', ''optimizer'', ''optimizer_config.json'']],
          Some AssertionError)
   \<and> snd (save_optimizer (tableless_zero_optimizer (adam_state [1, 2] [5, 6] None)) (ranks (0, 1) (0, 1) 0)
            [''ckpt''] empty_fs) = Some AssertionError
   \<and> files (fst (save_optimizer (tableless_zero_optimizer (adam_state [1, 2] [5, 6] None)) (ranks (0, 1) (0, 1) 0)
                   [''ckpt''] empty_fs))
       = [([''ckpt'', ''optimizer'', ''optimizer_config.json''], EmptyFile)]"
  by code_simp




text \<open>
  C10, amended. \<^verbatim>\<open>state_dict_to_device\<close> returns without an exception only when
  \<^verbatim>\<open>state_dict["state"][0]["exp_avg"]\<close> is on the CPU and the target is a CUDA device, and
  then every state tensor and every tensor of the gradient accumulator is on the target;
  with that tensor on the CPU and a gradient accumulator in the dictionary, a CUDA target
  does succeed, and any other target raises the AssertionError of line 174 once all
  tensors are on the target. When that tensor is not on the CPU, the AssertionError of
  line 162 is raised and the dictionary is as it was: nothing was moved.
\<close>

theorem state_dict_to_device_outcomes:
  "(state_dict_to_device sd dev = (sd', None)
      \<longrightarrow> exp_avg_device_type sd = Inr ''cpu'' \<and> device_type dev = ''cuda'' \<and> all_on_device sd' dev)
   \<and> (exp_avg_device_type sd = Inr ''cpu'' \<and> gradient_accumulator sd = Some acc
      \<longrightarrow> all_on_device (fst (state_dict_to_device sd dev)) dev
          \<and> snd (state_dict_to_device sd dev)
              = (if device_type dev = ''cuda'' then None else Some AssertionError))
   \<and> (exp_avg_device_type sd = Inr ty \<and> ty \<noteq> ''cpu''
      \<longrightarrow> state_dict_to_device sd dev = (sd, Some AssertionError))"
proof (intro conjI impI)
  assume ok: "state_dict_to_device sd dev = (sd', None)"
  then obtain ty where ty: "exp_avg_device_type sd = Inr ty"
    by (cases "exp_avg_device_type sd") (simp_all add: state_dict_to_device_def)
  from ok ty show "exp_avg_device_type sd = Inr ''cpu''"
    by (simp add: state_dict_to_device_def split: if_splits)
  from ok ty show "device_type dev = ''cuda''"
    by (auto simp: state_dict_to_device_def Let_def exp_avg_device_type_moved
          split: if_splits option.splits)
  from ok ty show "all_on_device sd' dev"
    by (auto simp: state_dict_to_device_def Let_def exp_avg_device_type_moved all_on_device_moved
          split: if_splits option.splits)
next
  assume "exp_avg_device_type sd = Inr ''cpu'' \<and> gradient_accumulator sd = Some acc"
  then show "all_on_device (fst (state_dict_to_device sd dev)) dev"
    by (simp add: state_dict_to_device_def Let_def exp_avg_device_type_moved all_on_device_moved)
next
  assume "exp_avg_device_type sd = Inr ''cpu'' \<and> gradient_accumulator sd = Some acc"
  then show "snd (state_dict_to_device sd dev)
               = (if device_type dev = ''cuda'' then None else Some AssertionError)"
    by (simp add: state_dict_to_device_def Let_def exp_avg_device_type_moved)
next
  assume "exp_avg_device_type sd = Inr ty \<and> ty \<noteq> ''cpu''"
  then show "state_dict_to_device sd dev = (sd, Some AssertionError)"
    by (simp add: state_dict_to_device_def)
qed

theorem state_dict_to_device_outcomes_witness:
  "exp_avg_device_type (adam_state [1] [2] (Some [3])) = Inr ''cpu''
   \<and> gradient_accumulator (adam_state [1] [2] (Some [3])) = Some [(''w'', cpu_tensor [3])]
   \<and> all_on_device (fst (state_dict_to_device (adam_state [1] [2] (Some [3])) (CUDA 0))) (CUDA 0)
   \<and> snd (state_dict_to_device (adam_state [1] [2] (Some [3])) (CUDA 0)) = None
   \<and> all_on_device (fst (state_dict_to_device (adam_state [1] [2] (Some [3])) CPU)) CPU
   \<and> snd (state_dict_to_device (adam_state [1] [2] (Some [3])) CPU) = Some AssertionError
   \<and> exp_avg_device_type gpu_state = Inr ''cuda''
   \<and> state_dict_to_device gpu_state (CUDA 0) = (gpu_state, Some AssertionError)"
  using state_dict_to_device_outcomes [of "adam_state [1] [2] (Some [3])" "CUDA 0"
          "fst (state_dict_to_device (adam_state [1] [2] (Some [3])) (CUDA 0))" "[(''w'', cpu_tensor [3])]"
          "''cuda''"]
        state_dict_to_device_outcomes [of "adam_state [1] [2] (Some [3])" CPU
          "fst (state_dict_to_device (adam_state [1] [2] (Some [3])) CPU)" "[(''w'', cpu_tensor [3])]"
          "''cuda''"]
        state_dict_to_device_outcomes [of gpu_state "CUDA 0" gpu_state "[]" "''cuda''"]
  by (simp add: adam_state_def gpu_state_def cpu_tensor_def exp_avg_device_type_def lookup_def
        device_type_def)

text \<open>
  C10 as stated fails: with the state on a GPU and the target \<^verbatim>\<open>cpu\<close>, the AssertionError
  is the one of line 162, raised before any tensor is moved: the dictionary is left as it
  was, with its tensor not on the target.
\<close>

theorem state_dict_to_device_raises_before_move:
  "state_dict_to_device gpu_state CPU = (gpu_state, Some AssertionError)
   \<and> \<not> all_on_device gpu_state CPU"
  by (simp add: state_dict_to_device_def gpu_state_def exp_avg_device_type_def lookup_def
        device_type_def all_on_device_def state_tensors_def accumulator_tensors_def)

end
